theory Spec2Isabelle
  imports Main
begin

section \<open>JavaScript values, objects and errors\<close>

text \<open>
  The values held by tracking metadata and by the reference records the matchers return:
  JSON scalars plus \<open>undefined\<close>. Numbers are the integers of the JSON data (versions);
  \<open>===\<close> on these values is HOL equality.
\<close>

datatype jval = JUndefined | JNull | JBool bool | JNum int | JStr string

text \<open>An object is its list of properties in insertion order.\<close>

type_synonym jobj = "(string \<times> jval) list"

text \<open>\<open>obj.k\<close>: reading a missing property gives \<open>undefined\<close>.\<close>

definition get_prop :: "jobj \<Rightarrow> string \<Rightarrow> jval" where
  "get_prop obj k = (case map_of obj k of None \<Rightarrow> JUndefined | Some v \<Rightarrow> v)"

text \<open>\<open>obj[k] = v\<close>: an existing property is overwritten in place, a new one is appended.\<close>

fun assign :: "string \<Rightarrow> jval \<Rightarrow> jobj \<Rightarrow> jobj" where
  "assign k v [] = [(k, v)]"
| "assign k v ((k', v') # rest) =
     (if k' = k then (k, v) # rest else (k', v') # assign k v rest)"

text \<open>Truthiness, as tested by \<open>if (x)\<close>, \<open>!x\<close> and \<open>x && y\<close>.\<close>

fun truthy :: "jval \<Rightarrow> bool" where
  "truthy JUndefined = False"
| "truthy JNull = False"
| "truthy (JBool b) = b"
| "truthy (JNum n) = (n \<noteq> 0)"
| "truthy (JStr s) = (s \<noteq> [])"

text \<open>
  What the code can raise: a \<open>TypeError\<close> from a property read on \<open>null\<close> or
  \<open>undefined\<close>, and the rejection of a fetch by the transport.
\<close>

datatype error = TypeError | FetchError string

section \<open>Template literals\<close>

definition digit_char :: "nat \<Rightarrow> char" where
  "digit_char d = ''0123456789'' ! d"

fun show_nat :: "nat \<Rightarrow> string" where
  "show_nat n =
     (if n < 10 then [digit_char n] else show_nat (n div 10) @ [digit_char (n mod 10)])"

declare show_nat.simps [simp del]

text \<open>The decimal rendering of an integer, as \<open>`${n}`\<close> gives it.\<close>

definition show_int :: "int \<Rightarrow> string" where
  "show_int i = (if i < 0 then CHR ''-'' # show_nat (nat (- i)) else show_nat (nat i))"

text \<open>\<open>`${v}`\<close> for a value.\<close>

fun to_string :: "jval \<Rightarrow> string" where
  "to_string JUndefined = ''undefined''"
| "to_string JNull = ''null''"
| "to_string (JBool b) = (if b then ''true'' else ''false'')"
| "to_string (JNum n) = show_int n"
| "to_string (JStr s) = s"

text \<open>\<open>makeWidgetInstanceKey\<close>, used for the widget and the stack instance caches.\<close>

definition makeWidgetInstanceKey :: "jval \<Rightarrow> jval \<Rightarrow> string" where
  "makeWidgetInstanceKey displayName version =
     ''Display Name: '' @ to_string displayName @ '' Version: '' @ to_string version"

section \<open>Remote records\<close>

record layout =
  lo_repositoryId :: string

record widget_desc =
  wd_repositoryId :: string
  wd_displayName :: string
  wd_version :: int
  wd_widgetType :: string
  wd_layouts :: "layout list"

text \<open>\<open>currentLayout\<close>, with \<open>widgetLayoutDescriptor.repositoryId\<close> flattened.\<close>

record current_layout =
  cl_repositoryId :: string
  cl_widgetLayoutDescriptor_repositoryId :: string

record widget_instance =
  wi_repositoryId :: string
  wi_displayName :: string
  wi_version :: int
  wi_currentLayout :: "current_layout option"
  wi_descriptor :: widget_desc

text \<open>
  An item of the widget instance listing: the widget's own fields and its \<open>instances\<close>.
  \<open>wg_desc\<close> is the item without \<open>instances\<close>, which is what the loader copies
  into each instance.
\<close>

record widget_group =
  wg_desc :: widget_desc
  wg_instances :: "widget_instance list"

record stack_desc =
  sd_repositoryId :: string
  sd_displayName :: string
  sd_version :: int
  sd_stackType :: string

record stack_instance =
  si_repositoryId :: string
  si_name :: string
  si_displayName :: string
  si_descriptor :: stack_desc

record stack_group =
  sg_desc :: stack_desc
  sg_instances :: "stack_instance list"

record element =
  el_tag :: string
  el_repositoryId :: string

record theme =
  th_name :: string
  th_repositoryId :: string

section \<open>The cache\<close>

text \<open>
  \<open>const cache = {}\<close>: each of the seven fields is \<open>undefined\<close> (\<open>None\<close>) until
  its loader assigns it.
\<close>

record cache =
  themes :: "(string \<rightharpoonup> theme) option"
  widgetInstances :: "(string \<rightharpoonup> widget_instance) option"
  widgetDescriptors :: "widget_desc list option"
  stackDescriptors :: "stack_desc list option"
  globalElements :: "(string \<rightharpoonup> element) option"
  widgetElements :: "(string \<rightharpoonup> element) option"
  stackInstances :: "(string \<rightharpoonup> stack_instance) option"

definition empty_cache :: cache where
  "empty_cache = \<lparr> themes = None, widgetInstances = None, widgetDescriptors = None,
     stackDescriptors = None, globalElements = None, widgetElements = None,
     stackInstances = None \<rparr>"

text \<open>
  \<open>map.get(v)\<close> on a map whose keys are all strings: only a string can hit.
\<close>

fun map_get :: "(string \<rightharpoonup> 'a) \<Rightarrow> jval \<Rightarrow> 'a option" where
  "map_get m (JStr s) = m s"
| "map_get m _ = None"

text \<open>
  The body of one partition's \<open>then\<close> callback in \<open>cacheWidgetInstances\<close>: every
  instance gets its widget's descriptor and is stored under its key.
\<close>

definition storeWidgetInstance ::
  "widget_desc \<Rightarrow> widget_instance \<Rightarrow> (string \<rightharpoonup> widget_instance) \<Rightarrow> (string \<rightharpoonup> widget_instance)" where
  "storeWidgetInstance widgetDesc instance m =
     m(makeWidgetInstanceKey (JStr (wi_displayName instance)) (JNum (wi_version instance))
         \<mapsto> instance\<lparr>wi_descriptor := widgetDesc\<rparr>)"

definition storeWidgetInstances ::
  "widget_group list \<Rightarrow> (string \<rightharpoonup> widget_instance) \<Rightarrow> (string \<rightharpoonup> widget_instance)" where
  "storeWidgetInstances items m =
     fold (\<lambda>widget. fold (storeWidgetInstance (wg_desc widget)) (wg_instances widget)) items m"

text \<open>The instances of a listing in the order the loader stores them.\<close>

definition populated :: "widget_group list \<Rightarrow> widget_instance list" where
  "populated items =
     concat (map (\<lambda>widget. map (\<lambda>instance. instance\<lparr>wi_descriptor := wg_desc widget\<rparr>)
                            (wg_instances widget)) items)"

section \<open>Tracking metadata on disk\<close>

text \<open>
  The seven kinds of metadata file (\<open>constants.widgetMetadataJson\<close> and the others);
  the file name of each is a parameter, as is the tracking directory.
\<close>

datatype metadata_type =
    ConfigMetadataJson | ElementMetadataJson | ThemeMetadataJson | StackMetadataJson
  | StackInstanceMetadataJson | WidgetMetadataJson | WidgetInstanceMetadataJson

text \<open>
  The result of \<open>classify\<close>: the three kinds \<open>getMatchingElement\<close> tests for, and
  any other kind.
\<close>

datatype putting_file_type =
    GLOBAL_ELEMENT_TEMPLATE | GLOBAL_ELEMENT_JAVASCRIPT | GLOBAL_ELEMENT_METADATA
  | OTHER_FILE_TYPE string

text \<open>What a JSON file holds once parsed: an object, or \<open>null\<close>.\<close>

datatype json_doc = DocNull | DocObj jobj

text \<open>
  The collaborators of the module: the file system (\<open>exists\<close>, \<open>readJsonFile\<close>,
  \<open>writeFile\<close>), \<open>eTagFor\<close>, \<open>splitFromBaseDir\<close>, the constants, \<open>classify\<close> and
  \<open>inTransferMode\<close>.
\<close>

record env =
  files :: "string \<rightharpoonup> json_doc"
  eTagFor :: "string \<Rightarrow> jval"
  splitFromBaseDir :: "string \<Rightarrow> string \<times> string"
  trackingDir :: string
  typeName :: "metadata_type \<Rightarrow> string"
  classify :: "string \<Rightarrow> putting_file_type option"
  inTransferMode :: bool

text \<open>\<open>s.split("/")\<close>.\<close>

fun split_on :: "char \<Rightarrow> string \<Rightarrow> string list" where
  "split_on c [] = [[]]"
| "split_on c (x # xs) =
     (if x = c then [] # split_on c xs
      else (case split_on c xs of [] \<Rightarrow> [[x]] | t # ts \<Rightarrow> (x # t) # ts))"

text \<open>\<open>tokens.join("/")\<close>.\<close>

fun join_with :: "char \<Rightarrow> string list \<Rightarrow> string" where
  "join_with c [] = []"
| "join_with c [t] = t"
| "join_with c (t # ts) = t @ c # join_with c ts"

text \<open>\<open>tokens.indexOf(t)\<close>: \<open>-1\<close> when the token is absent.\<close>

fun index_of :: "string list \<Rightarrow> string \<Rightarrow> int" where
  "index_of [] t = - 1"
| "index_of (x # xs) t =
     (if x = t then 0 else (let i = index_of xs t in if i < 0 then - 1 else i + 1))"

text \<open>\<open>tokens.slice(0, tokens.indexOf(t) + 2).join("/")\<close>.\<close>

definition base_dir_upto :: "string list \<Rightarrow> string \<Rightarrow> string" where
  "base_dir_upto tokens t = join_with CHR ''/'' (take (nat (index_of tokens t + 2)) tokens)"

definition getMetadataPath :: "env \<Rightarrow> string \<Rightarrow> metadata_type \<Rightarrow> string" where
  "getMetadataPath e path type =
     (let (baseDir, subDir) = splitFromBaseDir e path;
          tokens = split_on CHR ''/'' subDir;
          root = baseDir @ ''/'' @ trackingDir e @ ''/''
      in case type of
           ConfigMetadataJson \<Rightarrow> root @ typeName e type
         | ElementMetadataJson \<Rightarrow> root @ subDir @ ''/'' @ typeName e type
         | ThemeMetadataJson \<Rightarrow> root @ subDir @ ''/'' @ typeName e type
         | StackMetadataJson \<Rightarrow>
             root @ base_dir_upto tokens ''stack'' @ ''/'' @ typeName e type
         | StackInstanceMetadataJson \<Rightarrow>
             root @ base_dir_upto tokens ''instances'' @ ''/'' @ typeName e type
         | WidgetMetadataJson \<Rightarrow>
             root @ base_dir_upto tokens ''widget'' @ ''/'' @ typeName e type
         | WidgetInstanceMetadataJson \<Rightarrow>
             root @ base_dir_upto tokens ''instances'' @ ''/'' @ typeName e type)"

text \<open>
  \<open>readMetadataFromDisk(path, type, excludeEtag)\<close>: \<open>null\<close> (\<open>Inr None\<close>) when the
  metadata file does not exist, else the parsed file with \<open>etag\<close> set unless excluded. On a
  file holding \<open>null\<close> the assignment of \<open>etag\<close> raises.
\<close>

definition readMetadataFromDisk ::
  "env \<Rightarrow> string \<Rightarrow> metadata_type \<Rightarrow> bool \<Rightarrow> error + jobj option" where
  "readMetadataFromDisk e path type excludeEtag =
     (case files e (getMetadataPath e path type) of
        None \<Rightarrow> Inr None
      | Some DocNull \<Rightarrow> (if excludeEtag then Inr None else Inl TypeError)
      | Some (DocObj json) \<Rightarrow>
          Inr (Some (if excludeEtag then json else assign ''etag'' (eTagFor e path) json)))"

text \<open>The tracking file of a path for a metadata type does not exist.\<close>

definition untracked :: "env \<Rightarrow> string \<Rightarrow> metadata_type \<Rightarrow> bool" where
  "untracked e path type \<longleftrightarrow> files e (getMetadataPath e path type) = None"

text \<open>
  What \<open>JSON.stringify\<close> keeps of a record: \<open>null\<close> stays \<open>null\<close>, and properties whose
  value is \<open>undefined\<close> are left out.
\<close>

fun stringify :: "jobj option \<Rightarrow> json_doc" where
  "stringify None = DocNull"
| "stringify (Some obj) = DocObj (filter (\<lambda>(k, v). v \<noteq> JUndefined) obj)"

text \<open>
  \<open>Object.keys(additionalMetadata).forEach(key => existingMetadata[key] = additionalMetadata[key])\<close>:
  the first assignment raises when \<open>existingMetadata\<close> is \<open>null\<close>.
\<close>

fun merge_keys :: "string list \<Rightarrow> jobj \<Rightarrow> jobj option \<Rightarrow> error + jobj option" where
  "merge_keys [] additionalMetadata existing = Inr existing"
| "merge_keys (key # keys) additionalMetadata None = Inl TypeError"
| "merge_keys (key # keys) additionalMetadata (Some obj) =
     merge_keys keys additionalMetadata
       (Some (assign key (get_prop additionalMetadata key) obj))"

text \<open>
  \<open>updateMetadata(path, type, additionalMetadata)\<close>: the file system after the call, or
  the error raised (and then nothing is written).
\<close>

definition updateMetadata ::
  "env \<Rightarrow> string \<Rightarrow> metadata_type \<Rightarrow> jobj \<Rightarrow> error + env" where
  "updateMetadata e path type additionalMetadata =
     (case readMetadataFromDisk e path type True of
        Inl err \<Rightarrow> Inl err
      | Inr existingMetadata \<Rightarrow>
          (case merge_keys (map fst additionalMetadata) additionalMetadata existingMetadata of
             Inl err \<Rightarrow> Inl err
           | Inr merged \<Rightarrow>
               Inr (e\<lparr>files := (files e)(getMetadataPath e path type \<mapsto> stringify merged)\<rparr>)))"

section \<open>Matching against the cache\<close>

text \<open>The messages handed to \<open>info\<close> and \<open>warn\<close>: the message key and its argument.\<close>

datatype log_arg = PathArg string | NameArg jval

datatype log_entry = Info string log_arg | Warn string log_arg

text \<open>
  A matcher gives what it logged and either the error it raised or its return value
  (\<open>None\<close> is \<open>null\<close>, the no-match result).
\<close>

type_synonym 'a outcome = "log_entry list \<times> (error + 'a option)"

text \<open>
  \<open>array.find(callback)\<close> with a callback that can raise: the search stops at the first
  element on which the callback raises or returns true.
\<close>

fun js_find :: "('a \<Rightarrow> error + bool) \<Rightarrow> 'a list \<Rightarrow> error + 'a option" where
  "js_find f [] = Inr None"
| "js_find f (x # xs) =
     (case f x of
        Inl err \<Rightarrow> Inl err
      | Inr True \<Rightarrow> Inr (Some x)
      | Inr False \<Rightarrow> js_find f xs)"

text \<open>
  \<open>widget => widget.version === metadata.version && widget.displayName === metadata.displayName\<close>,
  where \<open>metadata\<close> may be \<open>null\<close>.
\<close>

fun sameWidget :: "jobj option \<Rightarrow> widget_desc \<Rightarrow> error + bool" where
  "sameWidget None widget = Inl TypeError"
| "sameWidget (Some metadata) widget =
     Inr (JNum (wd_version widget) = get_prop metadata ''version'' \<and>
          JStr (wd_displayName widget) = get_prop metadata ''displayName'')"

definition getMatchingWidget :: "env \<Rightarrow> cache \<Rightarrow> string \<Rightarrow> jobj outcome" where
  "getMatchingWidget e c path =
     (case readMetadataFromDisk e path WidgetMetadataJson False of
        Inl err \<Rightarrow> ([], Inl err)
      | Inr metadata \<Rightarrow>
          (case widgetDescriptors c of
             None \<Rightarrow> ([], Inl TypeError)
           | Some descriptors \<Rightarrow>
               (case js_find (sameWidget metadata) descriptors of
                  Inl err \<Rightarrow> ([], Inl err)
                | Inr (Some matchingWidget) \<Rightarrow>
                    ([Info ''matchingWidgetFound'' (PathArg path)],
                     Inr (Some [(''repositoryId'', JStr (wd_repositoryId matchingWidget)),
                                (''widgetType'', JStr (wd_widgetType matchingWidget)),
                                (''elementized'', JBool (length (wd_layouts matchingWidget) \<noteq> 0))]))
                | Inr None \<Rightarrow>
                    ([Warn ''noMatchingWidgetFound'' (PathArg path)], Inr None))))"

text \<open>\<open>getCachedWidgetInstanceFromMetadata\<close>, with its guard on a missing record.\<close>

definition getCachedWidgetInstanceFromMetadata ::
  "cache \<Rightarrow> jobj option \<Rightarrow> error + widget_instance option" where
  "getCachedWidgetInstanceFromMetadata c metadata =
     (case metadata of
        None \<Rightarrow> Inr None
      | Some md \<Rightarrow>
          (case widgetInstances c of
             None \<Rightarrow> Inl TypeError
           | Some m \<Rightarrow>
               Inr (m (makeWidgetInstanceKey (get_prop md ''displayName'') (get_prop md ''version'')))))"

text \<open>
  The \<open>else\<close> branch of \<open>getMatchingWidgetInstance\<close>: with no \<open>currentLayout\<close>, the
  layout descriptor is looked for through the widget's own metadata. Each of
  \<open>widgetMetadata\<close>, \<open>cache.widgetDescriptors\<close>, \<open>matchingWidget\<close> and
  \<open>layouts[0]\<close> is read without a check.
\<close>

definition layoutFallback :: "env \<Rightarrow> cache \<Rightarrow> string \<Rightarrow> jobj \<Rightarrow> error + jobj" where
  "layoutFallback e c path widgetInstanceMetadata =
     (case readMetadataFromDisk e path WidgetMetadataJson False of
        Inl err \<Rightarrow> Inl err
      | Inr None \<Rightarrow> Inl TypeError
      | Inr (Some widgetMetadata) \<Rightarrow>
          (if truthy (get_prop widgetMetadata ''elementized'') then
             (case widgetDescriptors c of
                None \<Rightarrow> Inl TypeError
              | Some descriptors \<Rightarrow>
                  (case js_find (sameWidget (Some widgetMetadata)) descriptors of
                     Inl err \<Rightarrow> Inl err
                   | Inr None \<Rightarrow> Inl TypeError
                   | Inr (Some matchingWidget) \<Rightarrow>
                       (case wd_layouts matchingWidget of
                          [] \<Rightarrow> Inl TypeError
                        | l # _ \<Rightarrow>
                            Inr (assign ''layoutDescriptorId'' (JStr (lo_repositoryId l))
                                   widgetInstanceMetadata))))
           else Inr widgetInstanceMetadata))"

definition getMatchingWidgetInstance :: "env \<Rightarrow> cache \<Rightarrow> string \<Rightarrow> jobj outcome" where
  "getMatchingWidgetInstance e c path =
     (case readMetadataFromDisk e path WidgetInstanceMetadataJson False of
        Inl err \<Rightarrow> ([], Inl err)
      | Inr widgetInstanceMetadata \<Rightarrow>
          (case getCachedWidgetInstanceFromMetadata c widgetInstanceMetadata of
             Inl err \<Rightarrow> ([], Inl err)
           | Inr (Some matchingWidgetInstance) \<Rightarrow>
               (let found = [Info ''matchingWidgetInstanceFound'' (PathArg path)];
                    md = [(''repositoryId'', JStr (wi_repositoryId matchingWidgetInstance)),
                          (''descriptorRepositoryId'',
                             JStr (wd_repositoryId (wi_descriptor matchingWidgetInstance))),
                          (''version'', JNum (wi_version matchingWidgetInstance)),
                          (''displayName'', JStr (wi_displayName matchingWidgetInstance))]
                in case wi_currentLayout matchingWidgetInstance of
                     Some currentLayout \<Rightarrow>
                       (found,
                        Inr (Some (assign ''layoutDescriptorId''
                                     (JStr (cl_widgetLayoutDescriptor_repositoryId currentLayout))
                                     (assign ''layoutInstanceId''
                                        (JStr (cl_repositoryId currentLayout)) md))))
                   | None \<Rightarrow>
                       (case layoutFallback e c path md of
                          Inl err \<Rightarrow> (found, Inl err)
                        | Inr md' \<Rightarrow> (found, Inr (Some md'))))
           | Inr None \<Rightarrow>
               ([Warn ''noMatchingWidgetInstanceFound'' (PathArg path)], Inr None)))"

text \<open>\<open>getCachedStackInstanceFromMetadata\<close>: no guard on a missing record.\<close>

definition getCachedStackInstanceFromMetadata ::
  "cache \<Rightarrow> jobj option \<Rightarrow> error + stack_instance option" where
  "getCachedStackInstanceFromMetadata c metadata =
     (case stackInstances c of
        None \<Rightarrow> Inl TypeError
      | Some m \<Rightarrow>
          (case metadata of
             None \<Rightarrow> Inl TypeError
           | Some md \<Rightarrow>
               Inr (m (makeWidgetInstanceKey (get_prop md ''name'') (get_prop md ''version'')))))"

text \<open>
  \<open>stack => stack.version === metadata.version && stack.displayName === metadata.displayName\<close>.
\<close>

fun sameStack :: "jobj option \<Rightarrow> stack_desc \<Rightarrow> error + bool" where
  "sameStack None stack = Inl TypeError"
| "sameStack (Some metadata) stack =
     Inr (JNum (sd_version stack) = get_prop metadata ''version'' \<and>
          JStr (sd_displayName stack) = get_prop metadata ''displayName'')"

definition getMatchingStack :: "env \<Rightarrow> cache \<Rightarrow> string \<Rightarrow> jobj outcome" where
  "getMatchingStack e c path =
     (case readMetadataFromDisk e path StackMetadataJson False of
        Inl err \<Rightarrow> ([], Inl err)
      | Inr metadata \<Rightarrow>
          (case stackDescriptors c of
             None \<Rightarrow> ([], Inl TypeError)
           | Some descriptors \<Rightarrow>
               (case js_find (sameStack metadata) descriptors of
                  Inl err \<Rightarrow> ([], Inl err)
                | Inr (Some matchingStack) \<Rightarrow>
                    ([Info ''matchingStackFound'' (PathArg path)],
                     Inr (Some [(''repositoryId'', JStr (sd_repositoryId matchingStack)),
                                (''stackType'', JStr (sd_stackType matchingStack))]))
                | Inr None \<Rightarrow>
                    ([Warn ''noMatchingStackFound'' (PathArg path)], Inr None))))"

definition getMatchingStackInstance :: "env \<Rightarrow> cache \<Rightarrow> string \<Rightarrow> jobj outcome" where
  "getMatchingStackInstance e c path =
     (case readMetadataFromDisk e path StackInstanceMetadataJson False of
        Inl err \<Rightarrow> ([], Inl err)
      | Inr metadata \<Rightarrow>
          (case getCachedStackInstanceFromMetadata c metadata of
             Inl err \<Rightarrow> ([], Inl err)
           | Inr (Some matchingStackInstance) \<Rightarrow>
               ([Info ''matchingStackInstanceFound'' (PathArg path)],
                Inr (Some [(''repositoryId'', JStr (si_repositoryId matchingStackInstance)),
                           (''version'',
                              (case metadata of None \<Rightarrow> JUndefined
                               | Some md \<Rightarrow> get_prop md ''version'')),
                           (''displayName'', JStr (si_displayName matchingStackInstance))]))
           | Inr None \<Rightarrow>
               ([Warn ''noMatchingStackInstanceFound'' (PathArg path)], Inr None)))"

text \<open>
  The test on \<open>classify(path)\<close> in \<open>getMatchingElement\<close>.
\<close>

definition isGlobalElementFile :: "putting_file_type option \<Rightarrow> bool" where
  "isGlobalElementFile fileType \<longleftrightarrow>
     fileType = Some GLOBAL_ELEMENT_TEMPLATE \<or> fileType = Some GLOBAL_ELEMENT_JAVASCRIPT \<or>
     fileType = Some GLOBAL_ELEMENT_METADATA"

text \<open>
  \<open>widget => widget.version === elementMetadata.version && widget.widgetType === widgetMetadata.widgetType\<close>:
  the second operand is read only when the versions agree.
\<close>

fun owningWidget :: "jobj option \<Rightarrow> jobj option \<Rightarrow> widget_desc \<Rightarrow> error + bool" where
  "owningWidget None widgetMetadata widget = Inl TypeError"
| "owningWidget (Some elementMetadata) widgetMetadata widget =
     (if JNum (wd_version widget) = get_prop elementMetadata ''version'' then
        (case widgetMetadata of
           None \<Rightarrow> Inl TypeError
         | Some wm \<Rightarrow> Inr (JStr (wd_widgetType widget) = get_prop wm ''widgetType''))
      else Inr False)"

text \<open>\<open>inTransferMode() && info(...)\<close>.\<close>

definition transferInfo :: "env \<Rightarrow> string \<Rightarrow> log_arg \<Rightarrow> log_entry list" where
  "transferInfo e key arg = (if inTransferMode e then [Info key arg] else [])"

definition getMatchingElement :: "env \<Rightarrow> cache \<Rightarrow> string \<Rightarrow> jobj outcome" where
  "getMatchingElement e c path =
     (case readMetadataFromDisk e path ElementMetadataJson False of
        Inl err \<Rightarrow> ([], Inl err)
      | Inr elementMetadata \<Rightarrow>
          (if isGlobalElementFile (classify e path) then
             (case globalElements c of
                None \<Rightarrow> ([], Inl TypeError)
              | Some m \<Rightarrow>
                  (case elementMetadata of
                     None \<Rightarrow> ([], Inl TypeError)
                   | Some em \<Rightarrow>
                       (case map_get m (get_prop em ''tag'') of
                          Some matchingElement \<Rightarrow>
                            (transferInfo e ''matchingElementFound'' (PathArg path),
                             Inr (Some em))
                        | None \<Rightarrow>
                            ([Warn ''noMatchingElementFound'' (PathArg path)], Inr None))))
           else
             (case readMetadataFromDisk e path WidgetMetadataJson False of
                Inl err \<Rightarrow> ([], Inl err)
              | Inr widgetMetadata \<Rightarrow>
                  (case widgetDescriptors c of
                     None \<Rightarrow> ([], Inl TypeError)
                   | Some descriptors \<Rightarrow>
                       (case js_find (owningWidget elementMetadata widgetMetadata) descriptors of
                          Inl err \<Rightarrow> ([], Inl err)
                        | Inr (Some matchingWidget) \<Rightarrow>
                            (transferInfo e ''matchingElementFound'' (PathArg path),
                             Inr (Some [(''tag'',
                                           (case elementMetadata of None \<Rightarrow> JUndefined
                                            | Some em \<Rightarrow> get_prop em ''tag'')),
                                        (''widgetId'', JStr (wd_repositoryId matchingWidget))]))
                        | Inr None \<Rightarrow>
                            ([Warn ''noMatchingElementFound'' (PathArg path)], Inr None))))))"

definition getMatchingTheme :: "env \<Rightarrow> cache \<Rightarrow> string \<Rightarrow> jobj outcome" where
  "getMatchingTheme e c path =
     (case readMetadataFromDisk e path ThemeMetadataJson False of
        Inl err \<Rightarrow> ([], Inl err)
      | Inr metadata \<Rightarrow>
          (case themes c of
             None \<Rightarrow> ([], Inl TypeError)
           | Some m \<Rightarrow>
               (case metadata of
                  None \<Rightarrow> ([], Inl TypeError)
                | Some md \<Rightarrow>
                    (case map_get m (get_prop md ''displayName'') of
                       Some matchingTheme \<Rightarrow>
                         (transferInfo e ''matchingThemeFound''
                            (NameArg (get_prop md ''displayName'')),
                          Inr (Some [(''repositoryId'', JStr (th_repositoryId matchingTheme))]))
                     | None \<Rightarrow>
                         ([Warn ''noMatchingThemeFound'' (NameArg (get_prop md ''displayName''))],
                          Inr None)))))"

text \<open>
  The \<open>switch\<close> of \<open>readMetadataFromServer\<close>: the matcher of each metadata type
  (the configuration metadata is read from disk).
\<close>

definition matchFor :: "env \<Rightarrow> cache \<Rightarrow> string \<Rightarrow> metadata_type \<Rightarrow> jobj outcome" where
  "matchFor e c path type =
     (case type of
        ThemeMetadataJson \<Rightarrow> getMatchingTheme e c path
      | ElementMetadataJson \<Rightarrow> getMatchingElement e c path
      | StackMetadataJson \<Rightarrow> getMatchingStack e c path
      | StackInstanceMetadataJson \<Rightarrow> getMatchingStackInstance e c path
      | WidgetMetadataJson \<Rightarrow> getMatchingWidget e c path
      | WidgetInstanceMetadataJson \<Rightarrow> getMatchingWidgetInstance e c path
      | ConfigMetadataJson \<Rightarrow> ([], readMetadataFromDisk e path type False))"

text \<open>
  \<open>readMetadataFromServer(path, type)\<close>, which \<open>readMetadata\<close> wraps into a promise:
  an error raised by the matcher is the rejection, and the etag is added to a match outside
  transfer mode.
\<close>

definition readMetadataFromServer ::
  "env \<Rightarrow> cache \<Rightarrow> string \<Rightarrow> metadata_type \<Rightarrow> jobj outcome" where
  "readMetadataFromServer e c path type =
     (let (logs, metadata) = matchFor e c path type
      in case metadata of
           Inl err \<Rightarrow> (logs, Inl err)
         | Inr None \<Rightarrow> (logs, Inr None)
         | Inr (Some md) \<Rightarrow>
             (logs, Inr (Some (if inTransferMode e then md
                               else assign ''etag'' (eTagFor e path) md))))"

section \<open>The exists-on-target predicates\<close>

text \<open>
  Each returns the cached record it found (a truthy value) or \<open>undefined\<close>/\<open>null\<close>
  (\<open>None\<close>), or raises.
\<close>

definition themeExistsOnTarget :: "env \<Rightarrow> cache \<Rightarrow> string \<Rightarrow> error + theme option" where
  "themeExistsOnTarget e c path =
     (case readMetadataFromDisk e path ThemeMetadataJson False of
        Inl err \<Rightarrow> Inl err
      | Inr metadata \<Rightarrow>
          (case themes c of
             None \<Rightarrow> Inl TypeError
           | Some m \<Rightarrow>
               (case metadata of
                  None \<Rightarrow> Inl TypeError
                | Some md \<Rightarrow> Inr (map_get m (get_prop md ''displayName'')))))"

text \<open>
  \<open>widget => widget.version === metadata.version && widget.widgetType === metadata.widgetType\<close>.
\<close>

fun sameWidgetType :: "jobj option \<Rightarrow> widget_desc \<Rightarrow> error + bool" where
  "sameWidgetType None widget = Inl TypeError"
| "sameWidgetType (Some metadata) widget =
     Inr (JNum (wd_version widget) = get_prop metadata ''version'' \<and>
          JStr (wd_widgetType widget) = get_prop metadata ''widgetType'')"

definition widgetExistsOnTarget :: "env \<Rightarrow> cache \<Rightarrow> string \<Rightarrow> error + widget_desc option" where
  "widgetExistsOnTarget e c path =
     (case readMetadataFromDisk e path WidgetMetadataJson False of
        Inl err \<Rightarrow> Inl err
      | Inr metadata \<Rightarrow>
          (case widgetDescriptors c of
             None \<Rightarrow> Inl TypeError
           | Some descriptors \<Rightarrow> js_find (sameWidgetType metadata) descriptors))"

definition stackExistsOnTarget :: "env \<Rightarrow> cache \<Rightarrow> string \<Rightarrow> error + stack_desc option" where
  "stackExistsOnTarget e c path =
     (case readMetadataFromDisk e path StackMetadataJson False of
        Inl err \<Rightarrow> Inl err
      | Inr metadata \<Rightarrow>
          (case stackDescriptors c of
             None \<Rightarrow> Inl TypeError
           | Some descriptors \<Rightarrow> js_find (sameStack metadata) descriptors))"

definition elementExistsOnTarget :: "env \<Rightarrow> cache \<Rightarrow> string \<Rightarrow> error + element option" where
  "elementExistsOnTarget e c path =
     (case readMetadataFromDisk e path ElementMetadataJson False of
        Inl err \<Rightarrow> Inl err
      | Inr metadata \<Rightarrow>
          (case globalElements c of
             None \<Rightarrow> Inl TypeError
           | Some m \<Rightarrow>
               (case metadata of
                  None \<Rightarrow> Inl TypeError
                | Some md \<Rightarrow> Inr (map_get m (get_prop md ''tag'')))))"

definition widgetInstanceExistsOnTarget ::
  "env \<Rightarrow> cache \<Rightarrow> string \<Rightarrow> error + widget_instance option" where
  "widgetInstanceExistsOnTarget e c path =
     (case readMetadataFromDisk e path WidgetInstanceMetadataJson False of
        Inl err \<Rightarrow> Inl err
      | Inr metadata \<Rightarrow> getCachedWidgetInstanceFromMetadata c metadata)"

text \<open>The value of a predicate read as a condition: an object is truthy.\<close>

definition holds :: "error + 'a option \<Rightarrow> bool" where
  "holds r = (case r of Inr (Some x) \<Rightarrow> True | _ \<Rightarrow> False)"

text \<open>A matcher returned a reference record.\<close>

definition matched :: "jobj outcome \<Rightarrow> bool" where
  "matched r = holds (snd r)"

text \<open>A matcher raised.\<close>

definition raised :: "jobj outcome \<Rightarrow> bool" where
  "raised r = (case snd r of Inl err \<Rightarrow> True | Inr x \<Rightarrow> False)"

section \<open>Populating the cache\<close>

text \<open>
  The eight fetches behind the seven loaders (\<open>cacheWidgetInstances\<close> issues two), and
  what the server answers to each: a rejection, or the \<open>items\<close> of the response. The
  widget instance loader tests \<open>results.data.items\<close>, so there \<open>items\<close> may be missing.
\<close>

datatype fetch =
    WidgetInstances100 | WidgetInstances101 | WidgetDescriptors | WidgetElements
  | GlobalElements | StackInstances | StackDescriptors | Themes

record server =
  serverSupportsGetElements :: bool
  getAllWidgetInstances100 :: "error + widget_group list option"
  getAllWidgetInstances101 :: "error + widget_group list option"
  getAllWidgetDescriptors :: "error + widget_desc list"
  getElementsOfWidgets :: "error + element list"
  getElementsGlobal :: "error + element list"
  getAllStackInstances :: "error + stack_group list"
  getAllStackDescriptors :: "error + stack_desc list"
  getThemes :: "error + theme list"

text \<open>
  \<open>items.forEach(x => cache.field.set(key(x), x))\<close>: with the field undefined, the first
  \<open>set\<close> raises.
\<close>

definition set_all ::
  "('a \<Rightarrow> string) \<Rightarrow> 'a list \<Rightarrow> (string \<rightharpoonup> 'a) option \<Rightarrow> error + (string \<rightharpoonup> 'a) option" where
  "set_all key xs field =
     (case field of
        None \<Rightarrow> (if xs = [] then Inr None else Inl TypeError)
      | Some m \<Rightarrow> Inr (Some (fold (\<lambda>x m. m(key x \<mapsto> x)) xs m)))"

text \<open>The \<open>then\<close> callbacks of the loaders.\<close>

definition themesLoaded :: "theme list \<Rightarrow> cache \<Rightarrow> error + cache" where
  "themesLoaded items c =
     (case set_all th_name items (themes c) of
        Inl err \<Rightarrow> Inl err
      | Inr m \<Rightarrow> Inr (c\<lparr>themes := m\<rparr>))"

definition widgetInstancesLoaded :: "widget_group list option \<Rightarrow> cache \<Rightarrow> error + cache" where
  "widgetInstancesLoaded items c =
     (case items of
        None \<Rightarrow> Inr c
      | Some widgets \<Rightarrow>
          (case widgetInstances c of
             None \<Rightarrow> (if populated widgets = [] then Inr c else Inl TypeError)
           | Some m \<Rightarrow> Inr (c\<lparr>widgetInstances := Some (storeWidgetInstances widgets m)\<rparr>)))"

definition widgetDescriptorsLoaded :: "widget_desc list \<Rightarrow> cache \<Rightarrow> error + cache" where
  "widgetDescriptorsLoaded items c = Inr (c\<lparr>widgetDescriptors := Some items\<rparr>)"

definition stackDescriptorsLoaded :: "stack_desc list \<Rightarrow> cache \<Rightarrow> error + cache" where
  "stackDescriptorsLoaded items c = Inr (c\<lparr>stackDescriptors := Some items\<rparr>)"

definition globalElementsLoaded :: "element list \<Rightarrow> cache \<Rightarrow> error + cache" where
  "globalElementsLoaded items c =
     (case set_all el_tag items (globalElements c) of
        Inl err \<Rightarrow> Inl err
      | Inr m \<Rightarrow> Inr (c\<lparr>globalElements := m\<rparr>))"

definition widgetElementsLoaded :: "element list \<Rightarrow> cache \<Rightarrow> error + cache" where
  "widgetElementsLoaded items c =
     (case set_all el_tag items (widgetElements c) of
        Inl err \<Rightarrow> Inl err
      | Inr m \<Rightarrow> Inr (c\<lparr>widgetElements := m\<rparr>))"

definition stackInstanceKey :: "stack_instance \<Rightarrow> string" where
  "stackInstanceKey stackInstance =
     makeWidgetInstanceKey (JStr (si_name stackInstance))
       (JNum (sd_version (si_descriptor stackInstance)))"

definition stackInstancesLoaded :: "stack_group list \<Rightarrow> cache \<Rightarrow> error + cache" where
  "stackInstancesLoaded items c =
     (case set_all stackInstanceKey
             (fold (\<lambda>stack stackInstances. stackInstances @ sg_instances stack) items [])
             (stackInstances c) of
        Inl err \<Rightarrow> Inl err
      | Inr m \<Rightarrow> Inr (c\<lparr>stackInstances := m\<rparr>))"

text \<open>
  The synchronous part of \<open>initializeMetadata\<close>: the seven loaders are called in turn,
  five of them create their map, and the fetches are issued. The element fetches are issued
  only when the server supports \<open>getElements\<close>.
\<close>

definition begin_loads :: "cache \<Rightarrow> cache" where
  "begin_loads c = c\<lparr> widgetInstances := Some Map.empty, widgetElements := Some Map.empty,
     globalElements := Some Map.empty, stackInstances := Some Map.empty,
     themes := Some Map.empty \<rparr>"

definition issued :: "server \<Rightarrow> fetch list" where
  "issued srv =
     [WidgetInstances100, WidgetInstances101, WidgetDescriptors] @
     (if serverSupportsGetElements srv then [WidgetElements, GlobalElements] else []) @
     [StackInstances, StackDescriptors, Themes]"

text \<open>
  One fetch settles: a rejected fetch, or a callback that raises, rejects its loader's
  promise; otherwise the callback has updated the cache.
\<close>

fun settle :: "server \<Rightarrow> fetch \<Rightarrow> cache \<Rightarrow> error + cache" where
  "settle srv WidgetInstances100 c =
     (case getAllWidgetInstances100 srv of Inl err \<Rightarrow> Inl err
      | Inr items \<Rightarrow> widgetInstancesLoaded items c)"
| "settle srv WidgetInstances101 c =
     (case getAllWidgetInstances101 srv of Inl err \<Rightarrow> Inl err
      | Inr items \<Rightarrow> widgetInstancesLoaded items c)"
| "settle srv WidgetDescriptors c =
     (case getAllWidgetDescriptors srv of Inl err \<Rightarrow> Inl err
      | Inr items \<Rightarrow> widgetDescriptorsLoaded items c)"
| "settle srv WidgetElements c =
     (if serverSupportsGetElements srv then
        (case getElementsOfWidgets srv of Inl err \<Rightarrow> Inl err
         | Inr items \<Rightarrow> widgetElementsLoaded items c)
      else Inr c)"
| "settle srv GlobalElements c =
     (if serverSupportsGetElements srv then
        (case getElementsGlobal srv of Inl err \<Rightarrow> Inl err
         | Inr items \<Rightarrow> globalElementsLoaded items c)
      else Inr c)"
| "settle srv StackInstances c =
     (case getAllStackInstances srv of Inl err \<Rightarrow> Inl err
      | Inr items \<Rightarrow> stackInstancesLoaded items c)"
| "settle srv StackDescriptors c =
     (case getAllStackDescriptors srv of Inl err \<Rightarrow> Inl err
      | Inr items \<Rightarrow> stackDescriptorsLoaded items c)"
| "settle srv Themes c =
     (case getThemes srv of Inl err \<Rightarrow> Inl err
      | Inr items \<Rightarrow> themesLoaded items c)"

text \<open>
  \<open>Promise.all\<close>: the fetches settle one at a time, in the order \<open>completion\<close>; the
  first rejection is the rejection of the whole, and the callbacks of the fetches that
  settle after it still run on the module's cache.
\<close>

fun settle_all :: "server \<Rightarrow> fetch list \<Rightarrow> cache \<times> error option \<Rightarrow> cache \<times> error option" where
  "settle_all srv [] st = st"
| "settle_all srv (f # fs) (c, rejected) =
     (case settle srv f c of
        Inl err \<Rightarrow>
          settle_all srv fs (c, (case rejected of None \<Rightarrow> Some err | Some first \<Rightarrow> Some first))
      | Inr c' \<Rightarrow> settle_all srv fs (c', rejected))"

text \<open>
  \<open>initializeMetadata()\<close>, for a completion order of the issued fetches: the module's
  cache afterwards, and the rejection of the returned promise if any.
\<close>

definition initializeMetadata :: "server \<Rightarrow> fetch list \<Rightarrow> cache \<Rightarrow> cache \<times> error option" where
  "initializeMetadata srv completion c = settle_all srv completion (begin_loads c, None)"

text \<open>
  \<open>cacheThemes()\<close> on its own: the map is created, and the callback of the one fetch
  fills it.
\<close>

definition cacheThemes :: "server \<Rightarrow> cache \<Rightarrow> cache \<times> error option" where
  "cacheThemes srv c = settle_all srv [Themes] (c\<lparr>themes := Some Map.empty\<rparr>, None)"

text \<open>\<open>cacheStackInstances()\<close> on its own.\<close>

definition cacheStackInstances :: "server \<Rightarrow> cache \<Rightarrow> cache \<times> error option" where
  "cacheStackInstances srv c =
     settle_all srv [StackInstances] (c\<lparr>stackInstances := Some Map.empty\<rparr>, None)"

text \<open>What makes a loader fail: the rejection of one of its fetches.\<close>

fun rejection :: "server \<Rightarrow> fetch \<Rightarrow> error option" where
  "rejection srv WidgetInstances100 =
     (case getAllWidgetInstances100 srv of Inl err \<Rightarrow> Some err | Inr _ \<Rightarrow> None)"
| "rejection srv WidgetInstances101 =
     (case getAllWidgetInstances101 srv of Inl err \<Rightarrow> Some err | Inr _ \<Rightarrow> None)"
| "rejection srv WidgetDescriptors =
     (case getAllWidgetDescriptors srv of Inl err \<Rightarrow> Some err | Inr _ \<Rightarrow> None)"
| "rejection srv WidgetElements =
     (case getElementsOfWidgets srv of Inl err \<Rightarrow> Some err | Inr _ \<Rightarrow> None)"
| "rejection srv GlobalElements =
     (case getElementsGlobal srv of Inl err \<Rightarrow> Some err | Inr _ \<Rightarrow> None)"
| "rejection srv StackInstances =
     (case getAllStackInstances srv of Inl err \<Rightarrow> Some err | Inr _ \<Rightarrow> None)"
| "rejection srv StackDescriptors =
     (case getAllStackDescriptors srv of Inl err \<Rightarrow> Some err | Inr _ \<Rightarrow> None)"
| "rejection srv Themes =
     (case getThemes srv of Inl err \<Rightarrow> Some err | Inr _ \<Rightarrow> None)"

section \<open>Notions for the statements about initialisation\<close>

text \<open>The five maps of the cache have been created.\<close>

definition maps_created :: "cache \<Rightarrow> bool" where
  "maps_created c \<longleftrightarrow>
     themes c \<noteq> None \<and> widgetInstances c \<noteq> None \<and> globalElements c \<noteq> None \<and>
     widgetElements c \<noteq> None \<and> stackInstances c \<noteq> None"

text \<open>The fetch \<open>a\<close> settles before the fetch \<open>b\<close> in a completion order.\<close>

definition settles_before :: "fetch \<Rightarrow> fetch \<Rightarrow> fetch list \<Rightarrow> bool" where
  "settles_before a b completion \<longleftrightarrow> b \<in> set (dropWhile (\<lambda>f. f \<noteq> a) completion)"

text \<open>The instance groups that the callback of a fetch stores in \<open>cache.widgetInstances\<close>.\<close>

definition stored :: "server \<Rightarrow> fetch \<Rightarrow> widget_group list" where
  "stored srv f =
     (case f of
        WidgetInstances100 \<Rightarrow>
          (case getAllWidgetInstances100 srv of Inr (Some widgets) \<Rightarrow> widgets | _ \<Rightarrow> [])
      | WidgetInstances101 \<Rightarrow>
          (case getAllWidgetInstances101 srv of Inr (Some widgets) \<Rightarrow> widgets | _ \<Rightarrow> [])
      | _ \<Rightarrow> [])"

text \<open>The items of a response; a rejected fetch lists nothing.\<close>

definition listing :: "error + 'a list \<Rightarrow> 'a list" where
  "listing response = (case response of Inl err \<Rightarrow> [] | Inr items \<Rightarrow> items)"

text \<open>
  What the module's cache holds once every issued fetch has settled, whatever the outcome
  of the whole: a collection whose fetch was resolved holds the listing of that fetch; after
  a rejected fetch (and for the elements of a server without \<open>getElements\<close>) a map is
  left empty and a descriptor list is left as it was before the call. The two partitions of
  widget instances are stored in the order in which they settled.
\<close>

definition filled :: "server \<Rightarrow> fetch list \<Rightarrow> cache \<Rightarrow> cache" where
  "filled srv completion c0 = \<lparr>
     themes = Some (fold (\<lambda>theme m. m(th_name theme \<mapsto> theme)) (listing (getThemes srv)) Map.empty),
     widgetInstances =
       Some (if settles_before WidgetInstances100 WidgetInstances101 completion
             then storeWidgetInstances (stored srv WidgetInstances101)
                    (storeWidgetInstances (stored srv WidgetInstances100) Map.empty)
             else storeWidgetInstances (stored srv WidgetInstances100)
                    (storeWidgetInstances (stored srv WidgetInstances101) Map.empty)),
     widgetDescriptors =
       (case getAllWidgetDescriptors srv of
          Inl err \<Rightarrow> widgetDescriptors c0
        | Inr items \<Rightarrow> Some items),
     stackDescriptors =
       (case getAllStackDescriptors srv of
          Inl err \<Rightarrow> stackDescriptors c0
        | Inr items \<Rightarrow> Some items),
     globalElements =
       Some (if serverSupportsGetElements srv
             then fold (\<lambda>element m. m(el_tag element \<mapsto> element))
                    (listing (getElementsGlobal srv)) Map.empty
             else Map.empty),
     widgetElements =
       Some (if serverSupportsGetElements srv
             then fold (\<lambda>element m. m(el_tag element \<mapsto> element))
                    (listing (getElementsOfWidgets srv)) Map.empty
             else Map.empty),
     stackInstances =
       Some (fold (\<lambda>stackInstance m. m(stackInstanceKey stackInstance \<mapsto> stackInstance))
               (concat (map sg_instances (listing (getAllStackInstances srv)))) Map.empty) \<rparr>"

section \<open>Sample data\<close>

text \<open>The widget descriptor and the instances used in the examples below.\<close>

definition cart_desc :: widget_desc where
  "cart_desc = \<lparr> wd_repositoryId = ''W1'', wd_displayName = ''Cart Summary'', wd_version = 2,
     wd_widgetType = ''cart'', wd_layouts = [] \<rparr>"

definition cart_instance :: "string \<Rightarrow> widget_instance" where
  "cart_instance rid = \<lparr> wi_repositoryId = rid, wi_displayName = ''Cart Summary Widget'',
     wi_version = 2, wi_currentLayout = None, wi_descriptor = cart_desc \<rparr>"

text \<open>A tracked tree under \<open>/work\<close> with the tracking directory \<open>.ccc\<close>.\<close>

definition sample_typeName :: "metadata_type \<Rightarrow> string" where
  "sample_typeName t = (case t of
       ConfigMetadataJson \<Rightarrow> ''config.json''
     | ElementMetadataJson \<Rightarrow> ''element.json''
     | ThemeMetadataJson \<Rightarrow> ''theme.json''
     | StackMetadataJson \<Rightarrow> ''stack.json''
     | StackInstanceMetadataJson \<Rightarrow> ''stackInstance.json''
     | WidgetMetadataJson \<Rightarrow> ''widget.json''
     | WidgetInstanceMetadataJson \<Rightarrow> ''widgetInstance.json'')"

definition sample_classify :: "string \<Rightarrow> putting_file_type option" where
  "sample_classify path =
     (if take 8 path = ''element/'' then Some GLOBAL_ELEMENT_TEMPLATE
      else Some (OTHER_FILE_TYPE ''ELEMENT_TEMPLATE''))"

definition sample_env :: "(string \<times> json_doc) list \<Rightarrow> env" where
  "sample_env fs = \<lparr> files = map_of fs, eTagFor = (\<lambda>path. JUndefined),
     splitFromBaseDir = (\<lambda>path. (''/work'', path)), trackingDir = ''.ccc'',
     typeName = sample_typeName, classify = sample_classify, inTransferMode = False \<rparr>"

definition cart_path :: string where
  "cart_path = ''widget/Cart Summary/display.template''"

definition cart_env :: env where
  "cart_env = sample_env
     [(''/work/.ccc/widget/Cart Summary/widget.json'',
       DocObj [(''displayName'', JStr ''Cart Summary''), (''version'', JNum 2)])]"

definition cart_cache :: cache where
  "cart_cache = empty_cache\<lparr>widgetDescriptors := Some [cart_desc]\<rparr>"

text \<open>An instance path in a tree with no tracking files, and a populated cache.\<close>

definition instance_path :: string where
  "instance_path = ''widget/Cart Summary/instances/Cart Summary Widget/display.template''"

definition summary_stack :: stack_desc where
  "summary_stack = \<lparr> sd_repositoryId = ''S1'', sd_displayName = ''Summary Stack'',
     sd_version = 1, sd_stackType = ''progressTracker'' \<rparr>"

definition loaded_cache :: cache where
  "loaded_cache = \<lparr> themes = Some Map.empty,
     widgetInstances = Some Map.empty,
     widgetDescriptors = Some [cart_desc], stackDescriptors = Some [summary_stack],
     globalElements = Some Map.empty, widgetElements = Some Map.empty,
     stackInstances = Some Map.empty \<rparr>"

text \<open>A server with two custom themes, and a theme directory of the tracked tree.\<close>

definition theme_server :: server where
  "theme_server = \<lparr> serverSupportsGetElements = False,
     getAllWidgetInstances100 = Inr None, getAllWidgetInstances101 = Inr None,
     getAllWidgetDescriptors = Inr [], getElementsOfWidgets = Inr [], getElementsGlobal = Inr [],
     getAllStackInstances = Inr [], getAllStackDescriptors = Inr [],
     getThemes = Inr [\<lparr>th_name = ''Dark'', th_repositoryId = ''T1''\<rparr>,
                      \<lparr>th_name = ''Light'', th_repositoryId = ''T2''\<rparr>] \<rparr>"

definition theme_env :: env where
  "theme_env = sample_env
     [(''/work/.ccc/theme/Dark/theme.json'', DocObj [(''displayName'', JStr ''Dark'')])]"

text \<open>
  A tree where the Cart Summary widget was renamed locally, and holds an element; the cache
  knows the widget and no global element.
\<close>

definition renamed_env :: env where
  "renamed_env = sample_env
     [(''/work/.ccc/widget/Cart Summary/widget.json'',
       DocObj [(''displayName'', JStr ''Cart Summary (old)''), (''version'', JNum 2),
               (''widgetType'', JStr ''cart'')]),
      (''/work/.ccc/widget/Cart Summary/element/Logo/element.json'',
       DocObj [(''tag'', JStr ''logo''), (''version'', JNum 2)]),
      (''/work/.ccc/element/Company Logo/element.json'',
       DocObj [(''tag'', JStr ''company-logo'')])]"

definition company_logo :: element where
  "company_logo = \<lparr> el_tag = ''company-logo'', el_repositoryId = ''E1'' \<rparr>"

definition target_cache :: cache where
  "target_cache = loaded_cache\<lparr>globalElements := Some [''company-logo'' \<mapsto> company_logo]\<rparr>"

definition logo_path :: string where
  "logo_path = ''widget/Cart Summary/element/Logo''"

text \<open>
  A server with one stack and one instance of it, and two trees tracking that instance:
  one records the instance's \<open>name\<close>, the other only its display name.
\<close>

definition checkout_stack_instance :: stack_instance where
  "checkout_stack_instance = \<lparr> si_repositoryId = ''SI1'', si_name = ''checkoutStack'',
     si_displayName = ''Checkout Stack'', si_descriptor = summary_stack \<rparr>"

definition stack_server :: server where
  "stack_server = theme_server\<lparr> getAllStackInstances :=
     Inr [\<lparr>sg_desc = summary_stack, sg_instances = [checkout_stack_instance]\<rparr>] \<rparr>"

definition stack_instance_path :: string where
  "stack_instance_path = ''stack/Summary Stack/instances/Checkout Stack''"

definition named_env :: env where
  "named_env = sample_env
     [(''/work/.ccc/stack/Summary Stack/stack.json'',
       DocObj [(''displayName'', JStr ''Summary Stack''), (''version'', JNum 1)]),
      (''/work/.ccc/stack/Summary Stack/instances/Checkout Stack/stackInstance.json'',
       DocObj [(''name'', JStr ''checkoutStack''), (''displayName'', JStr ''Checkout Stack''),
               (''version'', JNum 1)])]"

definition unnamed_env :: env where
  "unnamed_env = sample_env
     [(''/work/.ccc/stack/Summary Stack/instances/Checkout Stack/stackInstance.json'',
       DocObj [(''displayName'', JStr ''Checkout Stack''), (''version'', JNum 1)])]"

text \<open>A server that supports \<open>getElements\<close> and lists no element.\<close>

definition supporting_server :: server where
  "supporting_server = theme_server\<lparr>serverSupportsGetElements := True\<rparr>"

text \<open>
  A server on which the platform-supplied and the user-created partition both hold an
  instance named Cart Summary Widget at version 2, and the completion order in which the
  user-created partition arrives first.
\<close>

definition twice_server :: server where
  "twice_server = theme_server\<lparr>
     getAllWidgetInstances100 :=
       Inr (Some [\<lparr>wg_desc = cart_desc, wg_instances = [cart_instance ''P1'']\<rparr>]),
     getAllWidgetInstances101 :=
       Inr (Some [\<lparr>wg_desc = cart_desc, wg_instances = [cart_instance ''U1'']\<rparr>]) \<rparr>"

definition user_first :: "fetch list" where
  "user_first = [WidgetInstances101, WidgetInstances100, WidgetDescriptors, StackInstances,
     StackDescriptors, Themes]"

text \<open>
  A server that lists the Cart Summary widget and rejects the theme listing, and a
  completion order in which that rejection comes first.
\<close>

definition partial_server :: server where
  "partial_server = theme_server\<lparr> getAllWidgetDescriptors := Inr [cart_desc],
     getThemes := Inl (FetchError ''503'') \<rparr>"

definition themes_first :: "fetch list" where
  "themes_first = [Themes, WidgetInstances100, WidgetInstances101, WidgetDescriptors,
     StackInstances, StackDescriptors]"

section \<open>The instance key is injective\<close>

lemma digit_char_inj: "d < 10 \<Longrightarrow> d' < 10 \<Longrightarrow> digit_char d = digit_char d' \<Longrightarrow> d = d'"
proof -
  assume a: "d < 10" "d' < 10" "digit_char d = digit_char d'"
  have dist: "distinct ''0123456789''" by simp
  have len: "length ''0123456789'' = 10" by simp
  from a show ?thesis
    unfolding digit_char_def using nth_eq_iff_index_eq [OF dist, of d d'] len by simp
qed

lemma digit_char_in: "d < 10 \<Longrightarrow> digit_char d \<in> set ''0123456789''"
  unfolding digit_char_def by (rule nth_mem) simp

lemma digit_char_plain:
  "d < 10 \<Longrightarrow> digit_char d \<noteq> CHR '' '' \<and> digit_char d \<noteq> CHR ''-''"
  using digit_char_in [of d] by auto

lemma show_nat_plain: "CHR '' '' \<notin> set (show_nat n) \<and> CHR ''-'' \<notin> set (show_nat n)"
proof (induction n rule: show_nat.induct)
  case (1 n)
  show ?case
  proof (cases "n < 10")
    case True
    then show ?thesis using digit_char_plain [of n] by (auto simp: show_nat.simps [of n])
  next
    case False
    have "n mod 10 < 10" by simp
    with False 1 show ?thesis
      using digit_char_plain [of "n mod 10"] by (auto simp: show_nat.simps [of n])
  qed
qed

lemma show_nat_not_Nil: "show_nat n \<noteq> []"
  by (subst show_nat.simps) simp

lemma show_nat_inj: "show_nat m = show_nat n \<Longrightarrow> m = n"
proof (induction m arbitrary: n rule: show_nat.induct)
  case (1 m)
  show ?case
  proof (cases "m < 10")
    case m: True
    show ?thesis
    proof (cases "n < 10")
      case True
      with m 1(2) show ?thesis
        by (simp add: show_nat.simps [of m] show_nat.simps [of n] digit_char_inj)
    next
      case False
      with m 1(2) show_nat_not_Nil [of "n div 10"] show ?thesis
        by (simp add: show_nat.simps [of m] show_nat.simps [of n])
    qed
  next
    case m: False
    show ?thesis
    proof (cases "n < 10")
      case True
      with m 1(2) show_nat_not_Nil [of "m div 10"] show ?thesis
        by (simp add: show_nat.simps [of m] show_nat.simps [of n])
    next
      case False
      with m 1(2) have eq: "show_nat (m div 10) = show_nat (n div 10)"
        and d: "digit_char (m mod 10) = digit_char (n mod 10)"
        by (simp_all add: show_nat.simps [of m] show_nat.simps [of n])
      from 1(1) [OF m eq] have "m div 10 = n div 10" .
      moreover from d have "m mod 10 = n mod 10" by (intro digit_char_inj) simp_all
      ultimately show ?thesis by (metis div_mult_mod_eq)
    qed
  qed
qed

lemma show_int_no_space: "CHR '' '' \<notin> set (show_int i)"
  by (simp add: show_int_def show_nat_plain)

lemma show_nat_no_minus: "show_nat n \<noteq> CHR ''-'' # s"
proof
  assume "show_nat n = CHR ''-'' # s"
  then have "CHR ''-'' \<in> set (show_nat n)" by simp
  with show_nat_plain [of n] show False by simp
qed

lemma show_int_neg: "i < 0 \<Longrightarrow> show_int i = CHR ''-'' # show_nat (nat (- i))"
  by (simp add: show_int_def)

lemma show_int_nonneg: "\<not> i < 0 \<Longrightarrow> show_int i = show_nat (nat i)"
  by (simp add: show_int_def)

lemma show_int_inj: "show_int i = show_int j \<Longrightarrow> i = j"
proof -
  assume a: "show_int i = show_int j"
  show ?thesis
  proof (cases "i < 0"; cases "j < 0")
    assume ij: "i < 0" "j < 0"
    have "show_nat (nat (- i)) = show_nat (nat (- j))"
      using a show_int_neg [OF ij(1)] show_int_neg [OF ij(2)] by simp
    then have "nat (- i) = nat (- j)" by (rule show_nat_inj)
    with ij show ?thesis by arith
  next
    assume ij: "i < 0" "\<not> j < 0"
    have "show_nat (nat j) = CHR ''-'' # show_nat (nat (- i))"
      using a show_int_neg [OF ij(1)] show_int_nonneg [OF ij(2)] by simp
    with show_nat_no_minus show ?thesis by blast
  next
    assume ij: "\<not> i < 0" "j < 0"
    have "show_nat (nat i) = CHR ''-'' # show_nat (nat (- j))"
      using a show_int_neg [OF ij(2)] show_int_nonneg [OF ij(1)] by simp
    with show_nat_no_minus show ?thesis by blast
  next
    assume ij: "\<not> i < 0" "\<not> j < 0"
    have "show_nat (nat i) = show_nat (nat j)"
      using a show_int_nonneg [OF ij(1)] show_int_nonneg [OF ij(2)] by simp
    then have "nat i = nat j" by (rule show_nat_inj)
    with ij show ?thesis by arith
  qed
qed

lemma split_at_last_space:
  "CHR '' '' \<notin> set d1 \<Longrightarrow> CHR '' '' \<notin> set d2 \<Longrightarrow>
   a1 @ CHR '' '' # d1 = a2 @ CHR '' '' # d2 \<Longrightarrow> a1 = a2 \<and> d1 = d2"
proof (induction a1 arbitrary: a2)
  case Nil
  then show ?case by (cases a2) auto
next
  case (Cons x a1)
  show ?case
  proof (cases a2)
    case Nil
    with Cons.prems show ?thesis by auto
  next
    case (Cons y a2')
    with Cons.prems have "x = y" and "a1 @ CHR '' '' # d1 = a2' @ CHR '' '' # d2" by simp_all
    from Cons.IH [OF Cons.prems(1,2) this(2)] \<open>x = y\<close> Cons show ?thesis by simp
  qed
qed

lemma key_inj:
  "makeWidgetInstanceKey (JStr n1) (JNum v1) = makeWidgetInstanceKey (JStr n2) (JNum v2)
     \<longleftrightarrow> n1 = n2 \<and> v1 = v2"
proof
  assume "makeWidgetInstanceKey (JStr n1) (JNum v1) = makeWidgetInstanceKey (JStr n2) (JNum v2)"
  then have "(n1 @ '' Version:'') @ CHR '' '' # show_int v1 = (n2 @ '' Version:'') @ CHR '' '' # show_int v2"
    by (simp add: makeWidgetInstanceKey_def)
  from split_at_last_space [OF show_int_no_space show_int_no_space this]
  show "n1 = n2 \<and> v1 = v2" by (auto dest: show_int_inj)
qed simp

section \<open>Populating the instance cache\<close>

lemma find_snoc:
  "find P (xs @ [x]) = (case find P xs of Some y \<Rightarrow> Some y | None \<Rightarrow> (if P x then Some x else None))"
  by (induction xs) simp_all

lemma fold_upd_lookup:
  "fold (\<lambda>x m. m(key x \<mapsto> x)) xs m k =
     (case find (\<lambda>x. key x = k) (rev xs) of Some x \<Rightarrow> Some x | None \<Rightarrow> m k)"
proof (induction xs arbitrary: m)
  case Nil
  show ?case by simp
next
  case (Cons x xs)
  have "fold (\<lambda>x m. m(key x \<mapsto> x)) (x # xs) m k = fold (\<lambda>x m. m(key x \<mapsto> x)) xs (m(key x \<mapsto> x)) k"
    by (simp only: fold_simps o_apply)
  also have "\<dots> = (case find (\<lambda>x. key x = k) (rev xs) of Some y \<Rightarrow> Some y
                     | None \<Rightarrow> (m(key x \<mapsto> x)) k)"
    by (rule Cons.IH)
  also have "\<dots> = (case find (\<lambda>x. key x = k) (rev (x # xs)) of Some y \<Rightarrow> Some y | None \<Rightarrow> m k)"
    by (simp add: find_snoc split: option.splits)
  finally show ?case .
qed

lemma store_instances_of_widget:
  "fold (storeWidgetInstance d) is m =
     fold (\<lambda>i m. m(makeWidgetInstanceKey (JStr (wi_displayName i)) (JNum (wi_version i)) \<mapsto> i))
       (map (\<lambda>i. i\<lparr>wi_descriptor := d\<rparr>) is) m"
  by (induction "is" arbitrary: m) (simp_all add: storeWidgetInstance_def)

lemma storeWidgetInstances_populated:
  "storeWidgetInstances items m =
     fold (\<lambda>i m. m(makeWidgetInstanceKey (JStr (wi_displayName i)) (JNum (wi_version i)) \<mapsto> i))
       (populated items) m"
  unfolding storeWidgetInstances_def populated_def
  by (induction items arbitrary: m) (simp_all add: store_instances_of_widget)

text \<open>
  Claim C6. The key \<open>"Display Name: " + name + " Version: " + version\<close> is injective on
  (name, version) pairs; and after a listing has been stored, the entry under the key of
  (name, version) is the last stored instance with exactly that display name and that
  version (instances that share both collapse to one entry, the last one winning), or the
  entry the map had before when no stored instance has both. An instance that differs in
  either field never lands in that entry.
\<close>

theorem instance_key_injective_last_wins:
  "(makeWidgetInstanceKey (JStr n1) (JNum v1) = makeWidgetInstanceKey (JStr n2) (JNum v2)
      \<longleftrightarrow> n1 = n2 \<and> v1 = v2) \<and>
   storeWidgetInstances items m (makeWidgetInstanceKey (JStr n) (JNum v)) =
     (case find (\<lambda>i. wi_displayName i = n \<and> wi_version i = v) (rev (populated items)) of
        Some i \<Rightarrow> Some i
      | None \<Rightarrow> m (makeWidgetInstanceKey (JStr n) (JNum v)))"
  by (simp add: key_inj storeWidgetInstances_populated fold_upd_lookup)

theorem instance_key_injective_last_wins_witness:
  "makeWidgetInstanceKey (JStr ''Cart Summary Widget'') (JNum 2) \<noteq>
     makeWidgetInstanceKey (JStr ''Cart Summary Widget'') (JNum 3) \<and>
   storeWidgetInstances
     [\<lparr>wg_desc = cart_desc, wg_instances = [cart_instance ''I1'', cart_instance ''I2'']\<rparr>]
     Map.empty (makeWidgetInstanceKey (JStr ''Cart Summary Widget'') (JNum 2)) =
     Some (cart_instance ''I2'')"
  using instance_key_injective_last_wins
    [of "''Cart Summary Widget''" 2 "''Cart Summary Widget''" 3
        "[\<lparr>wg_desc = cart_desc, wg_instances = [cart_instance ''I1'', cart_instance ''I2'']\<rparr>]"
        Map.empty "''Cart Summary Widget''" 2]
  by (simp add: populated_def cart_instance_def)

section \<open>Matching a widget\<close>

lemma js_find_total: "js_find (\<lambda>x. Inr (P x)) xs = Inr (find P xs)"
  by (induction xs) simp_all

lemma sameWidget_Some:
  "sameWidget (Some md) =
     (\<lambda>w. Inr (JNum (wd_version w) = get_prop md ''version'' \<and>
               JStr (wd_displayName w) = get_prop md ''displayName''))"
  by (rule ext) simp

text \<open>
  Claim C1. For a path whose widget tracking record holds a display name and a version,
  \<open>getMatchingWidget\<close> scans \<open>cache.widgetDescriptors\<close> for the first descriptor with
  that version and that display name; on a hit it returns \<open>repositoryId\<close>,
  \<open>widgetType\<close> and \<open>elementized\<close>, the last being true exactly when the descriptor's
  layouts are not empty, and otherwise the no-match result. The witness is the scenario of
  the Cart Summary widget at version 2 with no layouts.
\<close>

theorem getMatchingWidget_scans_descriptors:
  assumes "readMetadataFromDisk e path WidgetMetadataJson False = Inr (Some metadata)"
    and "get_prop metadata ''displayName'' = JStr name"
    and "get_prop metadata ''version'' = JNum version"
    and "widgetDescriptors c = Some descriptors"
  shows "getMatchingWidget e c path =
     (case find (\<lambda>w. wd_version w = version \<and> wd_displayName w = name) descriptors of
        Some w \<Rightarrow>
          ([Info ''matchingWidgetFound'' (PathArg path)],
           Inr (Some [(''repositoryId'', JStr (wd_repositoryId w)),
                      (''widgetType'', JStr (wd_widgetType w)),
                      (''elementized'', JBool (wd_layouts w \<noteq> []))]))
      | None \<Rightarrow> ([Warn ''noMatchingWidgetFound'' (PathArg path)], Inr None))"
  using assms
  by (simp add: getMatchingWidget_def sameWidget_Some js_find_total split: option.splits)

lemma cart_metadata_path:
  "getMetadataPath cart_env cart_path WidgetMetadataJson = ''/work/.ccc/widget/Cart Summary/widget.json''"
  by (simp add: getMetadataPath_def cart_env_def sample_env_def cart_path_def base_dir_upto_def
      sample_typeName_def)

lemma cart_metadata:
  "readMetadataFromDisk cart_env cart_path WidgetMetadataJson False =
     Inr (Some [(''displayName'', JStr ''Cart Summary''), (''version'', JNum 2),
                (''etag'', JUndefined)])"
  by (simp add: readMetadataFromDisk_def cart_metadata_path) (simp add: cart_env_def sample_env_def)

theorem getMatchingWidget_scans_descriptors_witness:
  "getMatchingWidget cart_env cart_cache cart_path =
     ([Info ''matchingWidgetFound'' (PathArg cart_path)],
      Inr (Some [(''repositoryId'', JStr ''W1''), (''widgetType'', JStr ''cart''),
                 (''elementized'', JBool False)]))"
  using getMatchingWidget_scans_descriptors
    [OF cart_metadata, of "''Cart Summary''" 2 cart_cache "[cart_desc]"]
  by (simp add: get_prop_def cart_cache_def cart_desc_def)

section \<open>Matching without a local tracking record\<close>

lemma untracked_read: "untracked e path type \<Longrightarrow> readMetadataFromDisk e path type x = Inr None"
  by (simp add: untracked_def readMetadataFromDisk_def)

lemma js_find_raises: "xs \<noteq> [] \<Longrightarrow> js_find (\<lambda>x. Inl err) xs = Inl err"
  by (cases xs) simp_all

lemma sameWidget_None: "sameWidget None = (\<lambda>w. Inl TypeError)"
  by (rule ext) simp

lemma sameStack_None: "sameStack None = (\<lambda>s. Inl TypeError)"
  by (rule ext) simp

lemma owningWidget_None: "owningWidget None wm = (\<lambda>w. Inl TypeError)"
  by (rule ext) simp

lemma theme_untracked:
  "untracked e path ThemeMetadataJson \<Longrightarrow> getMatchingTheme e c path = ([], Inl TypeError)"
  by (simp add: getMatchingTheme_def untracked_read split: option.splits)

lemma stack_instance_untracked:
  "untracked e path StackInstanceMetadataJson \<Longrightarrow>
   getMatchingStackInstance e c path = ([], Inl TypeError)"
  by (simp add: getMatchingStackInstance_def getCachedStackInstanceFromMetadata_def untracked_read
      split: option.splits)

lemma global_element_untracked:
  "untracked e path ElementMetadataJson \<Longrightarrow> isGlobalElementFile (classify e path) \<Longrightarrow>
   getMatchingElement e c path = ([], Inl TypeError)"
  by (simp add: getMatchingElement_def untracked_read split: option.splits)

lemma widget_untracked:
  "untracked e path WidgetMetadataJson \<Longrightarrow> widgetDescriptors c \<noteq> Some [] \<Longrightarrow>
   getMatchingWidget e c path = ([], Inl TypeError)"
  by (cases "widgetDescriptors c")
     (simp_all add: getMatchingWidget_def untracked_read sameWidget_None js_find_raises)

lemma stack_untracked:
  "untracked e path StackMetadataJson \<Longrightarrow> stackDescriptors c \<noteq> Some [] \<Longrightarrow>
   getMatchingStack e c path = ([], Inl TypeError)"
  by (cases "stackDescriptors c")
     (simp_all add: getMatchingStack_def untracked_read sameStack_None js_find_raises)

lemma widget_instance_untracked:
  "untracked e path WidgetInstanceMetadataJson \<Longrightarrow>
   getMatchingWidgetInstance e c path =
     ([Warn ''noMatchingWidgetInstanceFound'' (PathArg path)], Inr None)"
  by (simp add: getMatchingWidgetInstance_def getCachedWidgetInstanceFromMetadata_def untracked_read)

lemma readMetadataFromServer_propagates:
  "snd (matchFor e c path type) = Inl err \<Longrightarrow> snd (readMetadataFromServer e c path type) = Inl err"
  by (auto simp: readMetadataFromServer_def split: prod.splits)

lemma read_raises_TypeError: "readMetadataFromDisk e path type x = Inl err \<Longrightarrow> err = TypeError"
  by (auto simp: readMetadataFromDisk_def split: option.splits json_doc.splits if_splits)

lemma widget_element_untracked:
  assumes "untracked e path ElementMetadataJson" "\<not> isGlobalElementFile (classify e path)"
    "widgetDescriptors c \<noteq> Some []"
  shows "getMatchingElement e c path = ([], Inl TypeError)"
proof (cases "readMetadataFromDisk e path WidgetMetadataJson False")
  case (Inl err)
  with read_raises_TypeError [OF Inl] assms show ?thesis
    by (simp add: getMatchingElement_def untracked_read)
next
  case (Inr wm)
  with assms show ?thesis
    by (cases "widgetDescriptors c")
       (simp_all add: getMatchingElement_def untracked_read owningWidget_None js_find_raises)
qed

text \<open>
  Claim C2, amended. When the tracking file of the path is missing, the theme matcher, the
  stack instance matcher and the element matcher on a global element path raise a
  \<open>TypeError\<close>; the widget matcher, the stack matcher and the element matcher on a
  widget element path raise it when the descriptor list they scan is not the empty list;
  the widget instance matcher, which guards against a missing record, logs
  \<open>noMatchingWidgetInstanceFound\<close> and returns the no-match result. An error raised by a
  matcher is the error of \<open>readMetadataFromServer\<close>.
\<close>

theorem missing_record_outcomes:
  "(untracked e path ThemeMetadataJson \<longrightarrow> getMatchingTheme e c path = ([], Inl TypeError)) \<and>
   (untracked e path StackInstanceMetadataJson \<longrightarrow>
      getMatchingStackInstance e c path = ([], Inl TypeError)) \<and>
   (untracked e path ElementMetadataJson \<and> isGlobalElementFile (classify e path) \<longrightarrow>
      getMatchingElement e c path = ([], Inl TypeError)) \<and>
   (untracked e path WidgetMetadataJson \<and> widgetDescriptors c \<noteq> Some [] \<longrightarrow>
      getMatchingWidget e c path = ([], Inl TypeError)) \<and>
   (untracked e path StackMetadataJson \<and> stackDescriptors c \<noteq> Some [] \<longrightarrow>
      getMatchingStack e c path = ([], Inl TypeError)) \<and>
   (untracked e path ElementMetadataJson \<and> \<not> isGlobalElementFile (classify e path) \<and>
      widgetDescriptors c \<noteq> Some [] \<longrightarrow>
      getMatchingElement e c path = ([], Inl TypeError)) \<and>
   (untracked e path WidgetInstanceMetadataJson \<longrightarrow>
      getMatchingWidgetInstance e c path =
        ([Warn ''noMatchingWidgetInstanceFound'' (PathArg path)], Inr None)) \<and>
   (snd (matchFor e c path type) = Inl err \<longrightarrow>
      snd (readMetadataFromServer e c path type) = Inl err)"
  by (simp add: theme_untracked stack_instance_untracked global_element_untracked
      widget_untracked stack_untracked widget_element_untracked widget_instance_untracked
      readMetadataFromServer_propagates)

lemma untracked_sample: "untracked (sample_env []) path type"
  by (simp add: untracked_def sample_env_def)

lemma sample_classify_simps:
  "classify (sample_env fs) ''element/Company Logo/element.template'' = Some GLOBAL_ELEMENT_TEMPLATE"
  "classify (sample_env fs) instance_path = Some (OTHER_FILE_TYPE ''ELEMENT_TEMPLATE'')"
  by (simp_all add: sample_env_def sample_classify_def instance_path_def)

theorem missing_record_outcomes_witness:
  "getMatchingTheme (sample_env []) loaded_cache instance_path = ([], Inl TypeError) \<and>
   getMatchingStackInstance (sample_env []) loaded_cache instance_path = ([], Inl TypeError) \<and>
   getMatchingElement (sample_env []) loaded_cache ''element/Company Logo/element.template'' =
     ([], Inl TypeError) \<and>
   getMatchingWidget (sample_env []) loaded_cache instance_path = ([], Inl TypeError) \<and>
   getMatchingStack (sample_env []) loaded_cache instance_path = ([], Inl TypeError) \<and>
   getMatchingElement (sample_env []) loaded_cache instance_path = ([], Inl TypeError) \<and>
   getMatchingWidgetInstance (sample_env []) loaded_cache instance_path =
     ([Warn ''noMatchingWidgetInstanceFound'' (PathArg instance_path)], Inr None) \<and>
   snd (readMetadataFromServer (sample_env []) loaded_cache instance_path ThemeMetadataJson) =
     Inl TypeError"
proof -
  have g: "isGlobalElementFile (classify (sample_env []) ''element/Company Logo/element.template'')"
    and w: "\<not> isGlobalElementFile (classify (sample_env []) instance_path)"
    by (simp_all add: sample_classify_simps isGlobalElementFile_def)
  have d: "widgetDescriptors loaded_cache \<noteq> Some []" "stackDescriptors loaded_cache \<noteq> Some []"
    by (simp_all add: loaded_cache_def)
  have m: "snd (matchFor (sample_env []) loaded_cache instance_path ThemeMetadataJson) = Inl TypeError"
    by (simp add: matchFor_def theme_untracked untracked_sample)
  show ?thesis
    using missing_record_outcomes
        [of "sample_env []" instance_path loaded_cache ThemeMetadataJson TypeError]
      missing_record_outcomes
        [of "sample_env []" "''element/Company Logo/element.template''" loaded_cache
            ThemeMetadataJson TypeError]
    by (simp add: g w d m untracked_sample)
qed

text \<open>
  The claim as stated fails for the widget instance matcher: with no tracking file it does
  not raise, it returns the no-match result.
\<close>

theorem widget_instance_missing_record_counterexample:
  "untracked (sample_env []) instance_path WidgetInstanceMetadataJson \<and>
   getMatchingWidgetInstance (sample_env []) loaded_cache instance_path =
     ([Warn ''noMatchingWidgetInstanceFound'' (PathArg instance_path)], Inr None)"
  by (simp add: untracked_sample widget_instance_untracked)

section \<open>Matching a theme\<close>

lemma find_SomeD: "find P xs = Some x \<Longrightarrow> P x \<and> x \<in> set xs"
  by (induction xs) (auto split: if_splits)

lemma fold_upd_Some:
  "fold (\<lambda>x m. m(key x \<mapsto> x)) xs Map.empty k = Some x \<Longrightarrow> x \<in> set xs \<and> key x = k"
  by (auto simp: fold_upd_lookup split: option.splits dest: find_SomeD)

lemma fold_upd_None:
  "fold (\<lambda>x m. m(key x \<mapsto> x)) xs Map.empty k = None \<longleftrightarrow> (\<forall>x \<in> set xs. key x \<noteq> k)"
proof -
  have "fold (\<lambda>x m. m(key x \<mapsto> x)) xs Map.empty k = find (\<lambda>x. key x = k) (rev xs)"
    by (simp add: fold_upd_lookup split: option.splits)
  then show ?thesis by (auto simp: find_None_iff)
qed

lemma cacheThemes_ok:
  assumes "cacheThemes srv c0 = (c, None)"
  obtains items where "getThemes srv = Inr items"
    and "themes c = Some (fold (\<lambda>t m. m(th_name t \<mapsto> t)) items Map.empty)"
  using assms
  by (auto simp: cacheThemes_def themesLoaded_def set_all_def split: sum.splits)

lemma theme_outcome:
  assumes "readMetadataFromDisk e path ThemeMetadataJson False = Inr (Some metadata)"
    and "themes c = Some m"
  shows "getMatchingTheme e c path =
     (case map_get m (get_prop metadata ''displayName'') of
        Some t \<Rightarrow> (transferInfo e ''matchingThemeFound'' (NameArg (get_prop metadata ''displayName'')),
                   Inr (Some [(''repositoryId'', JStr (th_repositoryId t))]))
      | None \<Rightarrow> ([Warn ''noMatchingThemeFound'' (NameArg (get_prop metadata ''displayName''))],
                 Inr None))"
  using assms by (simp add: getMatchingTheme_def split: option.splits)

lemma map_get_None:
  "map_get (fold (\<lambda>x m. m(key x \<mapsto> x)) xs Map.empty) v = None \<longleftrightarrow>
     (\<forall>x \<in> set xs. JStr (key x) \<noteq> v)"
  by (cases v) (simp_all add: fold_upd_None)

text \<open>
  Claim C10. The themes cache built by \<open>cacheThemes\<close> holds fetched themes, each under its
  own name (the theme's display name). For a path with a theme tracking record, every cached
  theme whose name equals the record's \<open>displayName\<close> makes \<open>getMatchingTheme\<close> return
  the \<open>repositoryId\<close> of that theme, and the no-match result is returned exactly when no
  fetched theme has that name.
\<close>

theorem theme_matched_by_name:
  assumes "readMetadataFromDisk e path ThemeMetadataJson False = Inr (Some metadata)"
    and "cacheThemes srv c0 = (c, None)"
  shows "\<exists>items m. getThemes srv = Inr items \<and> themes c = Some m \<and>
     (\<forall>k t. m k = Some t \<longrightarrow> t \<in> set items \<and> k = th_name t) \<and>
     (\<forall>k t. m k = Some t \<and> get_prop metadata ''displayName'' = JStr (th_name t) \<longrightarrow>
        snd (getMatchingTheme e c path) =
          Inr (Some [(''repositoryId'', JStr (th_repositoryId t))])) \<and>
     (snd (getMatchingTheme e c path) = Inr None \<longleftrightarrow>
        (\<forall>t \<in> set items. JStr (th_name t) \<noteq> get_prop metadata ''displayName''))"
proof -
  from assms(2) obtain items where items: "getThemes srv = Inr items"
    and m: "themes c = Some (fold (\<lambda>t m. m(th_name t \<mapsto> t)) items Map.empty)"
    by (rule cacheThemes_ok)
  let ?m = "fold (\<lambda>t m. m(th_name t \<mapsto> t)) items Map.empty"
  have keyed: "\<forall>k t. ?m k = Some t \<longrightarrow> t \<in> set items \<and> k = th_name t"
    using fold_upd_Some [of th_name items] by blast
  have hit: "snd (getMatchingTheme e c path) = Inr (Some [(''repositoryId'', JStr (th_repositoryId t))])"
    if "?m k = Some t" "get_prop metadata ''displayName'' = JStr (th_name t)" for k t
  proof -
    from that(1) keyed have "?m (th_name t) = Some t" by blast
    with that(2) show ?thesis by (simp add: theme_outcome [OF assms(1) m])
  qed
  have miss: "snd (getMatchingTheme e c path) = Inr None \<longleftrightarrow>
      (\<forall>t \<in> set items. JStr (th_name t) \<noteq> get_prop metadata ''displayName'')"
  proof -
    have "snd (getMatchingTheme e c path) = Inr None \<longleftrightarrow>
        map_get ?m (get_prop metadata ''displayName'') = None"
      by (simp add: theme_outcome [OF assms(1) m] split: option.splits)
    then show ?thesis by (simp only: map_get_None)
  qed
  from items m keyed hit miss show ?thesis by blast
qed

lemma theme_metadata:
  "readMetadataFromDisk theme_env ''theme/Dark'' ThemeMetadataJson False =
     Inr (Some [(''displayName'', JStr ''Dark''), (''etag'', JUndefined)])"
  by (simp add: readMetadataFromDisk_def getMetadataPath_def theme_env_def sample_env_def
      sample_typeName_def)

lemma theme_cache:
  "cacheThemes theme_server empty_cache =
     (empty_cache\<lparr>themes := Some [''Dark'' \<mapsto> \<lparr>th_name = ''Dark'', th_repositoryId = ''T1''\<rparr>,
                                  ''Light'' \<mapsto> \<lparr>th_name = ''Light'', th_repositoryId = ''T2''\<rparr>]\<rparr>,
      None)"
  by (simp add: cacheThemes_def theme_server_def themesLoaded_def set_all_def)

theorem theme_matched_by_name_witness:
  "snd (getMatchingTheme theme_env (fst (cacheThemes theme_server empty_cache)) ''theme/Dark'') =
     Inr (Some [(''repositoryId'', JStr ''T1'')])"
proof -
  let ?c = "empty_cache\<lparr>themes := Some [''Dark'' \<mapsto> \<lparr>th_name = ''Dark'', th_repositoryId = ''T1''\<rparr>,
                                  ''Light'' \<mapsto> \<lparr>th_name = ''Light'', th_repositoryId = ''T2''\<rparr>]\<rparr>"
  from theme_matched_by_name [OF theme_metadata theme_cache]
  obtain m where m: "themes ?c = Some m"
    and hit: "\<forall>k t. m k = Some t \<and>
        get_prop [(''displayName'', JStr ''Dark''), (''etag'', JUndefined)] ''displayName'' =
          JStr (th_name t) \<longrightarrow>
        snd (getMatchingTheme theme_env ?c ''theme/Dark'') =
          Inr (Some [(''repositoryId'', JStr (th_repositoryId t))])"
    by blast
  from m have "m ''Dark'' = Some \<lparr>th_name = ''Dark'', th_repositoryId = ''T1''\<rparr>"
    by auto
  moreover have "get_prop [(''displayName'', JStr ''Dark''), (''etag'', JUndefined)] ''displayName'' =
      JStr (th_name \<lparr>th_name = ''Dark'', th_repositoryId = ''T1''\<rparr>)"
    by (simp add: get_prop_def)
  ultimately have "snd (getMatchingTheme theme_env ?c ''theme/Dark'') =
      Inr (Some [(''repositoryId'', JStr (th_repositoryId \<lparr>th_name = ''Dark'', th_repositoryId = ''T1''\<rparr>))])"
    using hit by blast
  then show ?thesis by (simp add: theme_cache)
qed

section \<open>The exists-on-target predicates and the matchers\<close>

lemma holds_simps [simp]:
  "holds (Inl err) = False" "holds (Inr None) = False" "holds (Inr (Some x)) = True"
  by (simp_all add: holds_def)

lemma holds_Inr: "holds (Inr x) \<longleftrightarrow> x \<noteq> None"
  by (cases x) simp_all

lemma holds_js_find: "holds (js_find (\<lambda>x. Inr (P x)) xs) \<longleftrightarrow> (\<exists>x \<in> set xs. P x)"
proof -
  have "find P xs \<noteq> None \<longleftrightarrow> (\<exists>x \<in> set xs. P x)"
    by (auto simp: find_None_iff)
  then show ?thesis by (simp add: js_find_total holds_Inr)
qed

lemma sameStack_Some:
  "sameStack (Some md) =
     (\<lambda>s. Inr (JNum (sd_version s) = get_prop md ''version'' \<and>
               JStr (sd_displayName s) = get_prop md ''displayName''))"
  by (rule ext) simp

lemma sameWidgetType_Some:
  "sameWidgetType (Some md) =
     (\<lambda>w. Inr (JNum (wd_version w) = get_prop md ''version'' \<and>
               JStr (wd_widgetType w) = get_prop md ''widgetType''))"
  by (rule ext) simp

lemma theme_exists_iff_matched:
  "holds (themeExistsOnTarget e c path) = matched (getMatchingTheme e c path)"
  by (simp add: themeExistsOnTarget_def getMatchingTheme_def matched_def
      split: sum.splits option.splits)

lemma stack_exists_iff_matched:
  "holds (stackExistsOnTarget e c path) = matched (getMatchingStack e c path)"
  by (simp add: stackExistsOnTarget_def getMatchingStack_def matched_def
      split: sum.splits option.splits)

lemma widget_instance_matched_iff:
  "matched (getMatchingWidgetInstance e c path) \<longleftrightarrow>
     holds (widgetInstanceExistsOnTarget e c path) \<and> \<not> raised (getMatchingWidgetInstance e c path)"
  by (simp add: widgetInstanceExistsOnTarget_def getMatchingWidgetInstance_def Let_def matched_def
      raised_def split: sum.splits option.splits)

lemma widget_exists_iff:
  assumes "readMetadataFromDisk e path WidgetMetadataJson False = Inr (Some md)"
    and "widgetDescriptors c = Some ds"
  shows "holds (widgetExistsOnTarget e c path) \<longleftrightarrow>
     (\<exists>w \<in> set ds. JNum (wd_version w) = get_prop md ''version'' \<and>
                     JStr (wd_widgetType w) = get_prop md ''widgetType'')"
  using assms by (simp add: widgetExistsOnTarget_def sameWidgetType_Some holds_js_find)

lemma widget_matched_iff:
  assumes "readMetadataFromDisk e path WidgetMetadataJson False = Inr (Some md)"
    and "widgetDescriptors c = Some ds"
  shows "matched (getMatchingWidget e c path) \<longleftrightarrow>
     (\<exists>w \<in> set ds. JNum (wd_version w) = get_prop md ''version'' \<and>
                     JStr (wd_displayName w) = get_prop md ''displayName'')"
proof -
  have "matched (getMatchingWidget e c path) = holds (js_find (sameWidget (Some md)) ds)"
    using assms by (simp add: getMatchingWidget_def matched_def split: sum.splits option.splits)
  then show ?thesis by (simp add: sameWidget_Some holds_js_find)
qed

lemma element_exists_iff:
  assumes "readMetadataFromDisk e path ElementMetadataJson False = Inr (Some md)"
    and "globalElements c = Some m"
  shows "holds (elementExistsOnTarget e c path) \<longleftrightarrow> map_get m (get_prop md ''tag'') \<noteq> None"
  using assms by (simp add: elementExistsOnTarget_def holds_Inr)

lemma global_element_exists_iff_matched:
  "isGlobalElementFile (classify e path) \<Longrightarrow>
   holds (elementExistsOnTarget e c path) = matched (getMatchingElement e c path)"
  by (simp add: elementExistsOnTarget_def getMatchingElement_def matched_def
      split: sum.splits option.splits)

text \<open>
  Claim C4, amended. The theme and stack predicates are true exactly when their matcher
  returns a match. The widget instance matcher returns a match exactly when the widget
  instance predicate is true and the matcher does not raise in its layout fallback. The
  element predicate looks the record's tag up in \<open>cache.globalElements\<close> only, so it agrees
  with the element matcher on global element paths. The widget predicate is true exactly
  when a cached descriptor has the record's version and \<open>widgetType\<close>, whereas the widget
  matcher matches on version and \<open>displayName\<close>.
\<close>

theorem exists_on_target_and_matchers:
  "holds (themeExistsOnTarget e c path) = matched (getMatchingTheme e c path) \<and>
   holds (stackExistsOnTarget e c path) = matched (getMatchingStack e c path) \<and>
   matched (getMatchingWidgetInstance e c path) =
     (holds (widgetInstanceExistsOnTarget e c path) \<and>
      \<not> raised (getMatchingWidgetInstance e c path)) \<and>
   (isGlobalElementFile (classify e path) \<longrightarrow>
      holds (elementExistsOnTarget e c path) = matched (getMatchingElement e c path)) \<and>
   (readMetadataFromDisk e path ElementMetadataJson False = Inr (Some em) \<and>
    globalElements c = Some m \<longrightarrow>
      holds (elementExistsOnTarget e c path) = (map_get m (get_prop em ''tag'') \<noteq> None)) \<and>
   (readMetadataFromDisk e path WidgetMetadataJson False = Inr (Some wm) \<and>
    widgetDescriptors c = Some ds \<longrightarrow>
      holds (widgetExistsOnTarget e c path) =
        (\<exists>w \<in> set ds. JNum (wd_version w) = get_prop wm ''version'' \<and>
                        JStr (wd_widgetType w) = get_prop wm ''widgetType'') \<and>
      matched (getMatchingWidget e c path) =
        (\<exists>w \<in> set ds. JNum (wd_version w) = get_prop wm ''version'' \<and>
                        JStr (wd_displayName w) = get_prop wm ''displayName''))"
  using theme_exists_iff_matched [of e c path] stack_exists_iff_matched [of e c path]
    widget_instance_matched_iff [of e c path] global_element_exists_iff_matched [of e path c]
    element_exists_iff [of e path em c m] widget_exists_iff [of e path wm c ds]
    widget_matched_iff [of e path wm c ds]
  by simp

lemma renamed_widget_metadata:
  "readMetadataFromDisk renamed_env logo_path WidgetMetadataJson False =
     Inr (Some [(''displayName'', JStr ''Cart Summary (old)''), (''version'', JNum 2),
                (''widgetType'', JStr ''cart''), (''etag'', JUndefined)])"
  by (simp add: readMetadataFromDisk_def getMetadataPath_def renamed_env_def sample_env_def
      sample_typeName_def logo_path_def base_dir_upto_def)

lemma renamed_element_metadata:
  "readMetadataFromDisk renamed_env logo_path ElementMetadataJson False =
     Inr (Some [(''tag'', JStr ''logo''), (''version'', JNum 2), (''etag'', JUndefined)])"
  by (simp add: readMetadataFromDisk_def getMetadataPath_def renamed_env_def sample_env_def
      sample_typeName_def logo_path_def)

lemma company_logo_metadata:
  "readMetadataFromDisk renamed_env ''element/Company Logo'' ElementMetadataJson False =
     Inr (Some [(''tag'', JStr ''company-logo''), (''etag'', JUndefined)])"
  by (simp add: readMetadataFromDisk_def getMetadataPath_def renamed_env_def sample_env_def
      sample_typeName_def)

lemma target_cache_fields:
  "widgetDescriptors target_cache = Some [cart_desc]"
  "globalElements target_cache = Some [''company-logo'' \<mapsto> company_logo]"
  by (simp_all add: target_cache_def loaded_cache_def)

lemma renamed_classify:
  "isGlobalElementFile (classify renamed_env ''element/Company Logo'')"
  "\<not> isGlobalElementFile (classify renamed_env logo_path)"
  by (simp_all add: renamed_env_def sample_env_def sample_classify_def isGlobalElementFile_def
      logo_path_def)

theorem exists_on_target_and_matchers_witness:
  "holds (elementExistsOnTarget renamed_env target_cache ''element/Company Logo'') \<and>
   matched (getMatchingElement renamed_env target_cache ''element/Company Logo'') \<and>
   \<not> holds (elementExistsOnTarget renamed_env target_cache logo_path) \<and>
   holds (widgetExistsOnTarget renamed_env target_cache logo_path) \<and>
   \<not> matched (getMatchingWidget renamed_env target_cache logo_path)"
  using exists_on_target_and_matchers
      [of renamed_env target_cache "''element/Company Logo''"
          "[(''tag'', JStr ''company-logo''), (''etag'', JUndefined)]"
          "[''company-logo'' \<mapsto> company_logo]"
          "[(''displayName'', JStr ''Cart Summary (old)''), (''version'', JNum 2),
            (''widgetType'', JStr ''cart''), (''etag'', JUndefined)]" "[cart_desc]"]
    exists_on_target_and_matchers
      [of renamed_env target_cache logo_path
          "[(''tag'', JStr ''logo''), (''version'', JNum 2), (''etag'', JUndefined)]"
          "[''company-logo'' \<mapsto> company_logo]"
          "[(''displayName'', JStr ''Cart Summary (old)''), (''version'', JNum 2),
            (''widgetType'', JStr ''cart''), (''etag'', JUndefined)]" "[cart_desc]"]
  by (auto simp: renamed_widget_metadata renamed_element_metadata company_logo_metadata
      target_cache_fields renamed_classify get_prop_def cart_desc_def)

text \<open>
  The claim as stated fails: for the renamed widget the predicate is true and the matcher
  finds nothing, and for the widget's element the matcher finds the owning widget while
  the predicate is false.
\<close>

theorem exists_on_target_disagrees_counterexample:
  "holds (widgetExistsOnTarget renamed_env target_cache logo_path) \<and>
   \<not> matched (getMatchingWidget renamed_env target_cache logo_path) \<and>
   \<not> holds (elementExistsOnTarget renamed_env target_cache logo_path) \<and>
   getMatchingElement renamed_env target_cache logo_path =
     ([], Inr (Some [(''tag'', JStr ''logo''), (''widgetId'', JStr ''W1'')]))"
proof -
  have "holds (widgetExistsOnTarget renamed_env target_cache logo_path)"
    by (simp add: widget_exists_iff [OF renamed_widget_metadata target_cache_fields(1)]
        get_prop_def cart_desc_def)
  moreover have "\<not> matched (getMatchingWidget renamed_env target_cache logo_path)"
    by (simp add: widget_matched_iff [OF renamed_widget_metadata target_cache_fields(1)]
        get_prop_def cart_desc_def)
  moreover have "\<not> holds (elementExistsOnTarget renamed_env target_cache logo_path)"
    by (simp add: element_exists_iff [OF renamed_element_metadata target_cache_fields(2)]
        get_prop_def)
  moreover have "getMatchingElement renamed_env target_cache logo_path =
      ([], Inr (Some [(''tag'', JStr ''logo''), (''widgetId'', JStr ''W1'')]))"
    by (simp add: getMatchingElement_def renamed_element_metadata renamed_widget_metadata
        renamed_classify target_cache_fields get_prop_def cart_desc_def transferInfo_def)
       (simp add: renamed_env_def sample_env_def)
  ultimately show ?thesis by simp
qed

section \<open>Matching stacks and stack instances\<close>

lemma concat_instances:
  "fold (\<lambda>stack stackInstances. stackInstances @ sg_instances stack) items acc =
     acc @ concat (map sg_instances items)"
  by (induction items arbitrary: acc) simp_all

lemma cacheStackInstances_ok:
  assumes "cacheStackInstances srv c0 = (c, None)" and "getAllStackInstances srv = Inr items"
  shows "stackInstances c =
     Some (fold (\<lambda>i m. m(stackInstanceKey i \<mapsto> i)) (concat (map sg_instances items)) Map.empty)"
  using assms
  by (auto simp: cacheStackInstances_def stackInstancesLoaded_def set_all_def concat_instances
      split: sum.splits)

lemma stack_instance_key_eq:
  "stackInstanceKey i = makeWidgetInstanceKey (JStr n) (JNum v) \<longleftrightarrow>
     si_name i = n \<and> sd_version (si_descriptor i) = v"
  by (simp add: stackInstanceKey_def key_inj)

lemma stack_outcome:
  assumes "readMetadataFromDisk e path StackMetadataJson False = Inr (Some metadata)"
    and "stackDescriptors c = Some descriptors"
  shows "getMatchingStack e c path =
     (case find (\<lambda>s. JNum (sd_version s) = get_prop metadata ''version'' \<and>
                      JStr (sd_displayName s) = get_prop metadata ''displayName'') descriptors of
        Some s \<Rightarrow>
          ([Info ''matchingStackFound'' (PathArg path)],
           Inr (Some [(''repositoryId'', JStr (sd_repositoryId s)),
                      (''stackType'', JStr (sd_stackType s))]))
      | None \<Rightarrow> ([Warn ''noMatchingStackFound'' (PathArg path)], Inr None))"
  using assms
  by (simp add: getMatchingStack_def sameStack_Some js_find_total split: option.splits)

lemma stack_instance_outcome:
  assumes "readMetadataFromDisk e path StackInstanceMetadataJson False = Inr (Some metadata)"
    and "get_prop metadata ''name'' = JStr name"
    and "get_prop metadata ''version'' = JNum version"
    and "cacheStackInstances srv c0 = (c, None)"
    and "getAllStackInstances srv = Inr items"
  shows "getMatchingStackInstance e c path =
     (case find (\<lambda>i. si_name i = name \<and> sd_version (si_descriptor i) = version)
             (rev (concat (map sg_instances items))) of
        Some i \<Rightarrow>
          ([Info ''matchingStackInstanceFound'' (PathArg path)],
           Inr (Some [(''repositoryId'', JStr (si_repositoryId i)),
                      (''version'', JNum version),
                      (''displayName'', JStr (si_displayName i))]))
      | None \<Rightarrow> ([Warn ''noMatchingStackInstanceFound'' (PathArg path)], Inr None))"
  using assms(1-3) cacheStackInstances_ok [OF assms(4,5)]
  by (simp add: getMatchingStackInstance_def getCachedStackInstanceFromMetadata_def
      fold_upd_lookup stack_instance_key_eq split: option.splits)

text \<open>
  Claim C5, amended. The stack matcher mirrors the widget matcher: it scans
  \<open>cache.stackDescriptors\<close> for the record's version and display name and returns
  \<open>repositoryId\<close> and \<open>stackType\<close> (there is no \<open>elementized\<close>). The stack instance
  matcher looks the cache up by the record's \<open>name\<close> and \<open>version\<close>, the cache being
  keyed by each instance's \<open>name\<close> and its descriptor's version, and on a hit returns only
  \<open>repositoryId\<close>, the record's own \<open>version\<close> and the cached instance's
  \<open>displayName\<close>.
\<close>

theorem stack_matchers:
  assumes "readMetadataFromDisk e path StackMetadataJson False = Inr (Some stackMetadata)"
    and "stackDescriptors c = Some descriptors"
    and "readMetadataFromDisk e path' StackInstanceMetadataJson False = Inr (Some metadata)"
    and "get_prop metadata ''name'' = JStr name"
    and "get_prop metadata ''version'' = JNum version"
    and "cacheStackInstances srv c0 = (c, None)"
    and "getAllStackInstances srv = Inr items"
  shows "getMatchingStack e c path =
     (case find (\<lambda>s. JNum (sd_version s) = get_prop stackMetadata ''version'' \<and>
                      JStr (sd_displayName s) = get_prop stackMetadata ''displayName'')
             descriptors of
        Some s \<Rightarrow>
          ([Info ''matchingStackFound'' (PathArg path)],
           Inr (Some [(''repositoryId'', JStr (sd_repositoryId s)),
                      (''stackType'', JStr (sd_stackType s))]))
      | None \<Rightarrow> ([Warn ''noMatchingStackFound'' (PathArg path)], Inr None)) \<and>
   getMatchingStackInstance e c path' =
     (case find (\<lambda>i. si_name i = name \<and> sd_version (si_descriptor i) = version)
             (rev (concat (map sg_instances items))) of
        Some i \<Rightarrow>
          ([Info ''matchingStackInstanceFound'' (PathArg path')],
           Inr (Some [(''repositoryId'', JStr (si_repositoryId i)),
                      (''version'', JNum version),
                      (''displayName'', JStr (si_displayName i))]))
      | None \<Rightarrow> ([Warn ''noMatchingStackInstanceFound'' (PathArg path')], Inr None))"
  using stack_outcome [OF assms(1,2)] stack_instance_outcome [OF assms(3-7)] by simp

lemma named_stack_metadata:
  "readMetadataFromDisk named_env stack_instance_path StackMetadataJson False =
     Inr (Some [(''displayName'', JStr ''Summary Stack''), (''version'', JNum 1),
                (''etag'', JUndefined)])"
  by (simp add: readMetadataFromDisk_def getMetadataPath_def named_env_def sample_env_def
      sample_typeName_def stack_instance_path_def base_dir_upto_def)

lemma named_stack_instance_metadata:
  "readMetadataFromDisk named_env stack_instance_path StackInstanceMetadataJson False =
     Inr (Some [(''name'', JStr ''checkoutStack''), (''displayName'', JStr ''Checkout Stack''),
                (''version'', JNum 1), (''etag'', JUndefined)])"
  by (simp add: readMetadataFromDisk_def getMetadataPath_def named_env_def sample_env_def
      sample_typeName_def stack_instance_path_def base_dir_upto_def)

lemma unnamed_stack_instance_metadata:
  "readMetadataFromDisk unnamed_env stack_instance_path StackInstanceMetadataJson False =
     Inr (Some [(''displayName'', JStr ''Checkout Stack''), (''version'', JNum 1),
                (''etag'', JUndefined)])"
  by (simp add: readMetadataFromDisk_def getMetadataPath_def unnamed_env_def sample_env_def
      sample_typeName_def stack_instance_path_def base_dir_upto_def)

lemma stack_cache:
  "cacheStackInstances stack_server loaded_cache =
     (loaded_cache\<lparr>stackInstances :=
        Some [stackInstanceKey checkout_stack_instance \<mapsto> checkout_stack_instance]\<rparr>, None)"
  by (simp add: cacheStackInstances_def stack_server_def theme_server_def stackInstancesLoaded_def
      set_all_def loaded_cache_def)

lemma stack_server_items:
  "getAllStackInstances stack_server =
     Inr [\<lparr>sg_desc = summary_stack, sg_instances = [checkout_stack_instance]\<rparr>]"
  by (simp add: stack_server_def)

theorem stack_matchers_witness:
  "getMatchingStack named_env (fst (cacheStackInstances stack_server loaded_cache))
       stack_instance_path =
     ([Info ''matchingStackFound'' (PathArg stack_instance_path)],
      Inr (Some [(''repositoryId'', JStr ''S1''), (''stackType'', JStr ''progressTracker'')])) \<and>
   getMatchingStackInstance named_env (fst (cacheStackInstances stack_server loaded_cache))
       stack_instance_path =
     ([Info ''matchingStackInstanceFound'' (PathArg stack_instance_path)],
      Inr (Some [(''repositoryId'', JStr ''SI1''), (''version'', JNum 1),
                 (''displayName'', JStr ''Checkout Stack'')]))"
proof -
  let ?c = "loaded_cache\<lparr>stackInstances :=
      Some [stackInstanceKey checkout_stack_instance \<mapsto> checkout_stack_instance]\<rparr>"
  have c: "fst (cacheStackInstances stack_server loaded_cache) = ?c"
    by (simp add: stack_cache)
  have d: "stackDescriptors ?c = Some [summary_stack]"
    by (simp add: loaded_cache_def)
  have n: "get_prop [(''name'', JStr ''checkoutStack''), (''displayName'', JStr ''Checkout Stack''),
      (''version'', JNum 1), (''etag'', JUndefined)] ''name'' = JStr ''checkoutStack''"
    and v: "get_prop [(''name'', JStr ''checkoutStack''), (''displayName'', JStr ''Checkout Stack''),
      (''version'', JNum 1), (''etag'', JUndefined)] ''version'' = JNum 1"
    by (simp_all add: get_prop_def)
  from stack_matchers [OF named_stack_metadata d named_stack_instance_metadata n v stack_cache
      stack_server_items]
  show ?thesis
    unfolding c by (simp add: get_prop_def summary_stack_def checkout_stack_instance_def)
qed

text \<open>
  The claim as stated fails: a record that holds the instance's display name and version,
  but not its \<open>name\<close>, is not matched; and a match carries no
  \<open>descriptorRepositoryId\<close> and no layout identifiers.
\<close>

theorem stack_instance_matcher_counterexample:
  "getMatchingStackInstance unnamed_env (fst (cacheStackInstances stack_server loaded_cache))
       stack_instance_path =
     ([Warn ''noMatchingStackInstanceFound'' (PathArg stack_instance_path)], Inr None) \<and>
   getMatchingStackInstance named_env (fst (cacheStackInstances stack_server loaded_cache))
       stack_instance_path =
     ([Info ''matchingStackInstanceFound'' (PathArg stack_instance_path)],
      Inr (Some [(''repositoryId'', JStr ''SI1''), (''version'', JNum 1),
                 (''displayName'', JStr ''Checkout Stack'')]))"
  by (simp add: getMatchingStackInstance_def getCachedStackInstanceFromMetadata_def stack_cache
      unnamed_stack_instance_metadata named_stack_instance_metadata get_prop_def
      stackInstanceKey_def makeWidgetInstanceKey_def checkout_stack_instance_def
      summary_stack_def)

section \<open>Updating tracking metadata\<close>

lemma get_prop_Nil: "get_prop [] k = JUndefined"
  by (simp add: get_prop_def)

lemma get_prop_Cons: "get_prop ((k', v) # obj) k = (if k = k' then v else get_prop obj k)"
  by (simp add: get_prop_def)

lemma get_prop_assign: "get_prop (assign k v obj) k' = (if k' = k then v else get_prop obj k')"
  by (induction obj) (auto simp: get_prop_def)

lemma keys_assign: "fst ` set (assign k v obj) = insert k (fst ` set obj)"
proof (induction obj)
  case Nil
  show ?case by simp
next
  case (Cons kv obj)
  obtain k' v' where kv: "kv = (k', v')" by (cases kv)
  show ?case
  proof (cases "k' = k")
    case True
    with kv show ?thesis by simp
  next
    case False
    with kv Cons.IH show ?thesis by (simp add: insert_commute)
  qed
qed

lemma distinct_assign: "distinct (map fst obj) \<Longrightarrow> distinct (map fst (assign k v obj))"
proof (induction obj)
  case Nil
  show ?case by simp
next
  case (Cons kv obj)
  obtain k' v' where kv: "kv = (k', v')" by (cases kv)
  show ?case
  proof (cases "k' = k")
    case True
    with kv Cons.prems show ?thesis by simp
  next
    case False
    with kv Cons show ?thesis by (simp add: keys_assign)
  qed
qed

lemma merge_keys_Some:
  "merge_keys keys add (Some obj) =
     Inr (Some (fold (\<lambda>key obj. assign key (get_prop add key) obj) keys obj))"
  by (induction keys arbitrary: obj) simp_all

lemma merge_keys_None: "keys \<noteq> [] \<Longrightarrow> merge_keys keys add None = Inl TypeError"
  by (cases keys) simp_all

lemma get_prop_merged:
  "get_prop (fold (\<lambda>key obj. assign key (get_prop add key) obj) keys obj) k =
     (if k \<in> set keys then get_prop add k else get_prop obj k)"
  by (induction keys arbitrary: obj) (auto simp: get_prop_assign)

lemma distinct_merged:
  "distinct (map fst obj) \<Longrightarrow>
   distinct (map fst (fold (\<lambda>key obj. assign key (get_prop add key) obj) keys obj))"
  by (induction keys arbitrary: obj) (simp_all add: distinct_assign)

lemma get_prop_defined_only:
  "distinct (map fst obj) \<Longrightarrow>
   get_prop (filter (\<lambda>(k, v). v \<noteq> JUndefined) obj) k = get_prop obj k"
proof (induction obj)
  case Nil
  show ?case by simp
next
  case (Cons kv obj)
  obtain k' v' where kv: "kv = (k', v')" by (cases kv)
  from Cons.prems kv have notin: "k' \<notin> fst ` set obj" and d: "distinct (map fst obj)" by auto
  have absent: "map_of (filter (\<lambda>(k, v). v \<noteq> JUndefined) obj) k' = None"
    using notin by (auto simp: map_of_eq_None_iff)
  show ?case
  proof (cases "k = k'")
    case True
    with kv absent show ?thesis by (auto simp: get_prop_def)
  next
    case False
    with kv Cons.IH [OF d] show ?thesis by (auto simp: get_prop_def)
  qed
qed

text \<open>
  Claim C9, amended. On a path whose metadata file does not exist, \<open>updateMetadata\<close> with
  at least one supplied key raises a \<open>TypeError\<close> and writes nothing. On a path whose
  metadata file holds a record, it reads the record without adding the etag, and writes
  back to the same metadata path a record in which every supplied key has the supplied
  value and every other key reads as it did in the file.
\<close>

theorem updateMetadata_merges:
  "(untracked e path type \<and> additionalMetadata \<noteq> [] \<longrightarrow>
      updateMetadata e path type additionalMetadata = Inl TypeError) \<and>
   (files e (getMetadataPath e path type) = Some (DocObj existing) \<and>
    distinct (map fst existing) \<longrightarrow>
      (\<exists>written.
         updateMetadata e path type additionalMetadata =
           Inr (e\<lparr>files := (files e)(getMetadataPath e path type \<mapsto> DocObj written)\<rparr>) \<and>
         (\<forall>key. get_prop written key =
            (if key \<in> fst ` set additionalMetadata then get_prop additionalMetadata key
             else get_prop existing key))))"
proof (intro conjI impI)
  assume "untracked e path type \<and> additionalMetadata \<noteq> []"
  then show "updateMetadata e path type additionalMetadata = Inl TypeError"
    by (simp add: updateMetadata_def untracked_read merge_keys_None)
next
  assume a: "files e (getMetadataPath e path type) = Some (DocObj existing) \<and>
    distinct (map fst existing)"
  let ?merged = "fold (\<lambda>key obj. assign key (get_prop additionalMetadata key) obj)
    (map fst additionalMetadata) existing"
  let ?written = "filter (\<lambda>(k, v). v \<noteq> JUndefined) ?merged"
  from a have "updateMetadata e path type additionalMetadata =
      Inr (e\<lparr>files := (files e)(getMetadataPath e path type \<mapsto> DocObj ?written)\<rparr>)"
    by (simp add: updateMetadata_def readMetadataFromDisk_def merge_keys_Some)
  moreover from a have "distinct (map fst ?merged)"
    by (simp add: distinct_merged)
  then have "get_prop ?written key =
      (if key \<in> fst ` set additionalMetadata then get_prop additionalMetadata key
       else get_prop existing key)" for key
    by (simp add: get_prop_defined_only get_prop_merged)
  ultimately show "\<exists>written.
      updateMetadata e path type additionalMetadata =
        Inr (e\<lparr>files := (files e)(getMetadataPath e path type \<mapsto> DocObj written)\<rparr>) \<and>
      (\<forall>key. get_prop written key =
         (if key \<in> fst ` set additionalMetadata then get_prop additionalMetadata key
          else get_prop existing key))"
    by blast
qed

lemma sample_cart_metadata_path:
  "getMetadataPath (sample_env fs) cart_path WidgetMetadataJson =
     ''/work/.ccc/widget/Cart Summary/widget.json''"
  by (simp add: getMetadataPath_def sample_env_def cart_path_def base_dir_upto_def
      sample_typeName_def)

lemma cart_file:
  "files cart_env (getMetadataPath cart_env cart_path WidgetMetadataJson) =
     Some (DocObj [(''displayName'', JStr ''Cart Summary''), (''version'', JNum 2)])"
  by (simp add: cart_metadata_path) (simp add: cart_env_def sample_env_def)

theorem updateMetadata_merges_witness:
  "updateMetadata (sample_env []) cart_path WidgetMetadataJson [(''version'', JNum 3)] =
     Inl TypeError \<and>
   (\<exists>written.
      updateMetadata cart_env cart_path WidgetMetadataJson
          [(''version'', JNum 3), (''elementized'', JBool True)] =
        Inr (cart_env\<lparr>files := (files cart_env)
               (''/work/.ccc/widget/Cart Summary/widget.json'' \<mapsto> DocObj written)\<rparr>) \<and>
      get_prop written ''version'' = JNum 3 \<and>
      get_prop written ''elementized'' = JBool True \<and>
      get_prop written ''displayName'' = JStr ''Cart Summary'' \<and>
      get_prop written ''etag'' = JUndefined)"
proof -
  from updateMetadata_merges
    [of "sample_env []" cart_path WidgetMetadataJson "[(''version'', JNum 3)]"]
  have missing: "updateMetadata (sample_env []) cart_path WidgetMetadataJson [(''version'', JNum 3)] =
      Inl TypeError"
    by (simp add: untracked_sample)
  from updateMetadata_merges
    [of cart_env cart_path WidgetMetadataJson
        "[(''version'', JNum 3), (''elementized'', JBool True)]"
        "[(''displayName'', JStr ''Cart Summary''), (''version'', JNum 2)]"]
  obtain written where
    w: "updateMetadata cart_env cart_path WidgetMetadataJson
          [(''version'', JNum 3), (''elementized'', JBool True)] =
        Inr (cart_env\<lparr>files := (files cart_env)
               (getMetadataPath cart_env cart_path WidgetMetadataJson \<mapsto> DocObj written)\<rparr>)"
    and k: "\<And>key. get_prop written key =
        (if key \<in> fst ` set [(''version'', JNum 3), (''elementized'', JBool True)]
         then get_prop [(''version'', JNum 3), (''elementized'', JBool True)] key
         else get_prop [(''displayName'', JStr ''Cart Summary''), (''version'', JNum 2)] key)"
    using cart_file by auto
  have "get_prop written ''version'' = JNum 3" "get_prop written ''elementized'' = JBool True"
    "get_prop written ''displayName'' = JStr ''Cart Summary''"
    "get_prop written ''etag'' = JUndefined"
    by (simp_all add: k get_prop_Cons get_prop_Nil)
  moreover note w [unfolded cart_metadata_path]
  ultimately have "\<exists>written.
      updateMetadata cart_env cart_path WidgetMetadataJson
          [(''version'', JNum 3), (''elementized'', JBool True)] =
        Inr (cart_env\<lparr>files := (files cart_env)
               (''/work/.ccc/widget/Cart Summary/widget.json'' \<mapsto> DocObj written)\<rparr>) \<and>
      get_prop written ''version'' = JNum 3 \<and>
      get_prop written ''elementized'' = JBool True \<and>
      get_prop written ''displayName'' = JStr ''Cart Summary'' \<and>
      get_prop written ''etag'' = JUndefined"
    by blast
  with missing show ?thesis by simp
qed

text \<open>
  The claim as stated fails when no key is supplied: on a path with no metadata file the
  call does not fail, and it creates the metadata file, holding \<open>null\<close>.
\<close>

theorem updateMetadata_no_keys_counterexample:
  "untracked (sample_env []) cart_path WidgetMetadataJson \<and>
   updateMetadata (sample_env []) cart_path WidgetMetadataJson [] =
     Inr ((sample_env [])\<lparr>files :=
        [''/work/.ccc/widget/Cart Summary/widget.json'' \<mapsto> DocNull]\<rparr>)"
  by (simp add: untracked_sample updateMetadata_def untracked_read sample_cart_metadata_path)
     (simp add: sample_env_def)

section \<open>Initialising the cache\<close>

lemma maps_created_begin: "maps_created (begin_loads c)"
  by (simp add: maps_created_def begin_loads_def)

lemma set_all_Some: "set_all key xs (Some m) = Inr (Some (fold (\<lambda>x m. m(key x \<mapsto> x)) xs m))"
  by (simp add: set_all_def)

lemma settle_rejected:
  assumes "maps_created c" and "f \<in> set (issued srv)"
  shows "settle srv f c = Inl err \<longleftrightarrow> rejection srv f = Some err"
proof -
  from assms(1) obtain t wi ge we si where
    "themes c = Some t" "widgetInstances c = Some wi" "globalElements c = Some ge"
    "widgetElements c = Some we" "stackInstances c = Some si"
    by (auto simp: maps_created_def)
  with assms(2) show ?thesis
    by (cases f)
       (auto simp: issued_def themesLoaded_def widgetInstancesLoaded_def
          widgetDescriptorsLoaded_def stackDescriptorsLoaded_def globalElementsLoaded_def
          widgetElementsLoaded_def stackInstancesLoaded_def set_all_Some
          split: sum.splits option.splits if_splits)
qed

lemma settle_keeps_maps:
  assumes "maps_created c" and "settle srv f c = Inr c'"
  shows "maps_created c'"
proof -
  from assms(1) obtain t wi ge we si where
    "themes c = Some t" "widgetInstances c = Some wi" "globalElements c = Some ge"
    "widgetElements c = Some we" "stackInstances c = Some si"
    by (auto simp: maps_created_def)
  with assms(2) show ?thesis
    by (cases f)
       (auto simp: maps_created_def themesLoaded_def widgetInstancesLoaded_def
          widgetDescriptorsLoaded_def stackDescriptorsLoaded_def globalElementsLoaded_def
          widgetElementsLoaded_def stackInstancesLoaded_def set_all_Some
          split: sum.splits option.splits if_splits)
qed

lemma settle_all_resolved:
  "maps_created c \<Longrightarrow> set fs \<subseteq> set (issued srv) \<Longrightarrow>
   snd (settle_all srv fs (c, r)) = None \<longleftrightarrow> r = None \<and> (\<forall>f \<in> set fs. rejection srv f = None)"
proof (induction fs arbitrary: c r)
  case Nil
  show ?case by simp
next
  case (Cons f fs)
  then have f: "f \<in> set (issued srv)" and fs: "set fs \<subseteq> set (issued srv)" by auto
  show ?case
  proof (cases "settle srv f c")
    case (Inl err)
    with settle_rejected [OF Cons.prems(1) f, of err] have "rejection srv f = Some err" by simp
    with Inl Cons.IH [OF Cons.prems(1) fs] show ?thesis by (simp split: option.splits)
  next
    case (Inr c')
    with settle_rejected [OF Cons.prems(1) f] have "rejection srv f = None"
      by (cases "rejection srv f") auto
    with Inr Cons.IH [OF settle_keeps_maps [OF Cons.prems(1) Inr] fs] show ?thesis by simp
  qed
qed

lemma settle_all_rejection:
  "maps_created c \<Longrightarrow> set fs \<subseteq> set (issued srv) \<Longrightarrow>
   snd (settle_all srv fs (c, r)) = Some err \<Longrightarrow>
   r = Some err \<or> (\<exists>f \<in> set fs. rejection srv f = Some err)"
proof (induction fs arbitrary: c r)
  case Nil
  then show ?case by simp
next
  case (Cons f fs)
  then have f: "f \<in> set (issued srv)" and fs: "set fs \<subseteq> set (issued srv)" by auto
  show ?case
  proof (cases "settle srv f c")
    case (Inl e)
    with settle_rejected [OF Cons.prems(1) f, of e] have rej: "rejection srv f = Some e" by simp
    from Inl Cons.prems(3)
    have "snd (settle_all srv fs (c, (case r of None \<Rightarrow> Some e | Some first \<Rightarrow> Some first))) = Some err"
      by simp
    from Cons.IH [OF Cons.prems(1) fs this] rej show ?thesis
      by (auto split: option.splits)
  next
    case (Inr c')
    with Cons.prems(3) have "snd (settle_all srv fs (c', r)) = Some err" by simp
    from Cons.IH [OF settle_keeps_maps [OF Cons.prems(1) Inr] fs this] show ?thesis by auto
  qed
qed

lemma set_all_Nil: "set_all key [] field = Inr field"
  by (cases field) (simp_all add: set_all_def)

lemma settle_keeps_elements:
  assumes "settle srv f c = Inr c'"
    and "\<not> serverSupportsGetElements srv \<or>
         (getElementsGlobal srv = Inr [] \<and> getElementsOfWidgets srv = Inr [])"
  shows "globalElements c' = globalElements c \<and> widgetElements c' = widgetElements c"
  using assms
  by (cases f)
     (auto simp: themesLoaded_def widgetInstancesLoaded_def
        widgetDescriptorsLoaded_def stackDescriptorsLoaded_def globalElementsLoaded_def
        widgetElementsLoaded_def stackInstancesLoaded_def set_all_Nil
        split: sum.splits option.splits if_splits)

lemma settle_all_keeps_elements:
  assumes "\<not> serverSupportsGetElements srv \<or>
         (getElementsGlobal srv = Inr [] \<and> getElementsOfWidgets srv = Inr [])"
  shows "globalElements (fst (settle_all srv fs (c, r))) = globalElements c \<and>
         widgetElements (fst (settle_all srv fs (c, r))) = widgetElements c"
proof (induction fs arbitrary: c r)
  case Nil
  show ?case by simp
next
  case (Cons f fs)
  show ?case
  proof (cases "settle srv f c")
    case (Inl e)
    with Cons.IH show ?thesis by simp
  next
    case (Inr c')
    with Cons.IH [of c' r] settle_keeps_elements [OF Inr assms] show ?thesis by simp
  qed
qed

lemma no_elements_after_initializeMetadata:
  assumes "\<not> serverSupportsGetElements srv \<or>
         (getElementsGlobal srv = Inr [] \<and> getElementsOfWidgets srv = Inr [])"
  shows "globalElements (fst (initializeMetadata srv completion c0)) = Some Map.empty \<and>
         widgetElements (fst (initializeMetadata srv completion c0)) = Some Map.empty"
  using settle_all_keeps_elements [OF assms, of completion "begin_loads c0" None]
  by (simp add: initializeMetadata_def begin_loads_def)

lemma settle_ignores_elements:
  "\<not> serverSupportsGetElements srv \<Longrightarrow>
   settle (srv\<lparr>getElementsOfWidgets := x, getElementsGlobal := y\<rparr>) f c = settle srv f c"
  by (cases f) simp_all

lemma settle_all_ignores_elements:
  "\<not> serverSupportsGetElements srv \<Longrightarrow>
   settle_all (srv\<lparr>getElementsOfWidgets := x, getElementsGlobal := y\<rparr>) fs st = settle_all srv fs st"
proof (induction fs arbitrary: st)
  case Nil
  show ?case by simp
next
  case (Cons f fs)
  obtain c r where st: "st = (c, r)" by (cases st)
  from Cons show ?case unfolding st by (simp add: settle_ignores_elements split: sum.splits)
qed

lemma global_element_not_cached:
  assumes "isGlobalElementFile (classify e path)"
    and "readMetadataFromDisk e path ElementMetadataJson False = Inr (Some md)"
    and "globalElements c = Some Map.empty"
  shows "getMatchingElement e c path =
     ([Warn ''noMatchingElementFound'' (PathArg path)], Inr None)"
proof -
  have "map_get Map.empty v = (None :: element option)" for v by (cases v) simp_all
  with assms show ?thesis by (simp add: getMatchingElement_def)
qed

text \<open>
  Claim C8, amended. On a server that does not support \<open>getElements\<close>, initialisation
  leaves \<open>globalElements\<close> and \<open>widgetElements\<close> as empty maps and does not depend on
  what the element listings would answer (no element fetch is made). In that state the
  element matcher, on a global element path with a tracking record, warns
  \<open>noMatchingElementFound\<close> and returns the no-match result: the very outcome it has
  after initialisation against a server that supports \<open>getElements\<close> and lists no element.
\<close>

theorem unsupported_elements_leave_empty_caches:
  assumes "\<not> serverSupportsGetElements srv"
  shows "globalElements (fst (initializeMetadata srv completion c0)) = Some Map.empty \<and>
     widgetElements (fst (initializeMetadata srv completion c0)) = Some Map.empty \<and>
     initializeMetadata (srv\<lparr>getElementsOfWidgets := x, getElementsGlobal := y\<rparr>) completion c0 =
       initializeMetadata srv completion c0 \<and>
     (isGlobalElementFile (classify e path) \<and>
      readMetadataFromDisk e path ElementMetadataJson False = Inr (Some md) \<longrightarrow>
        getMatchingElement e (fst (initializeMetadata srv completion c0)) path =
          ([Warn ''noMatchingElementFound'' (PathArg path)], Inr None) \<and>
        (\<forall>srv' completion' c0'.
           serverSupportsGetElements srv' \<and> getElementsGlobal srv' = Inr [] \<and>
           getElementsOfWidgets srv' = Inr [] \<longrightarrow>
           getMatchingElement e (fst (initializeMetadata srv' completion' c0')) path =
             getMatchingElement e (fst (initializeMetadata srv completion c0)) path))"
proof -
  note empty = no_elements_after_initializeMetadata
  have same: "initializeMetadata (srv\<lparr>getElementsOfWidgets := x, getElementsGlobal := y\<rparr>)
      completion c0 = initializeMetadata srv completion c0"
    using assms by (simp add: initializeMetadata_def settle_all_ignores_elements)
  have miss: "getMatchingElement e (fst (initializeMetadata s fs c)) path =
      ([Warn ''noMatchingElementFound'' (PathArg path)], Inr None)"
    if "isGlobalElementFile (classify e path)"
      "readMetadataFromDisk e path ElementMetadataJson False = Inr (Some md)"
      "\<not> serverSupportsGetElements s \<or>
         (getElementsGlobal s = Inr [] \<and> getElementsOfWidgets s = Inr [])" for s fs c
    using global_element_not_cached [OF that(1,2)] empty [OF that(3)] by simp
  from assms empty [of srv completion c0] same miss show ?thesis by simp
qed

lemma theme_server_elements:
  "\<not> serverSupportsGetElements theme_server"
  "serverSupportsGetElements supporting_server"
  "getElementsGlobal supporting_server = Inr []"
  "getElementsOfWidgets supporting_server = Inr []"
  by (simp_all add: theme_server_def supporting_server_def)

theorem unsupported_elements_leave_empty_caches_witness:
  "globalElements (fst (initializeMetadata theme_server (issued theme_server) empty_cache)) =
     Some Map.empty \<and>
   widgetElements (fst (initializeMetadata theme_server (issued theme_server) empty_cache)) =
     Some Map.empty \<and>
   getMatchingElement renamed_env
       (fst (initializeMetadata theme_server (issued theme_server) empty_cache))
       ''element/Company Logo'' =
     ([Warn ''noMatchingElementFound'' (PathArg ''element/Company Logo'')], Inr None)"
  using unsupported_elements_leave_empty_caches
    [OF theme_server_elements(1),
     where completion = "issued theme_server" and ?c0.0 = empty_cache and e = renamed_env
       and path = "''element/Company Logo''"
       and md = "[(''tag'', JStr ''company-logo''), (''etag'', JUndefined)]"]
  by (simp add: renamed_classify company_logo_metadata)

text \<open>
  The claim as stated fails in its second half: against the server without
  \<open>getElements\<close> the element matcher reports exactly what it reports against a server
  that supports it and lists no element. There is no outcome for an unsupported listing.
\<close>

theorem unsupported_not_distinguished_counterexample:
  "\<not> serverSupportsGetElements theme_server \<and>
   serverSupportsGetElements supporting_server \<and>
   getElementsGlobal supporting_server = Inr [] \<and>
   getMatchingElement renamed_env
       (fst (initializeMetadata theme_server (issued theme_server) empty_cache))
       ''element/Company Logo'' =
     ([Warn ''noMatchingElementFound'' (PathArg ''element/Company Logo'')], Inr None) \<and>
   getMatchingElement renamed_env
       (fst (initializeMetadata supporting_server (issued supporting_server) empty_cache))
       ''element/Company Logo'' =
     ([Warn ''noMatchingElementFound'' (PathArg ''element/Company Logo'')], Inr None)"
proof -
  have "globalElements (fst (initializeMetadata theme_server (issued theme_server) empty_cache)) =
      Some Map.empty"
    using no_elements_after_initializeMetadata [of theme_server] theme_server_elements by simp
  moreover
  have "globalElements
      (fst (initializeMetadata supporting_server (issued supporting_server) empty_cache)) =
      Some Map.empty"
    using no_elements_after_initializeMetadata [of supporting_server] theme_server_elements
    by simp
  ultimately show ?thesis
    using global_element_not_cached [OF renamed_classify(1) company_logo_metadata]
      theme_server_elements
    by simp
qed

section \<open>The two partitions of widget instances\<close>

lemma storeWidgetInstances_Nil: "storeWidgetInstances [] m = m"
  by (simp add: storeWidgetInstances_def)

lemma settle_widgetInstances:
  assumes "widgetInstances c = Some m"
  shows "case settle srv f c of
           Inl err \<Rightarrow> stored srv f = []
         | Inr c' \<Rightarrow> widgetInstances c' = Some (storeWidgetInstances (stored srv f) m)"
  using assms
  by (cases f)
     (auto simp: stored_def themesLoaded_def widgetInstancesLoaded_def
        widgetDescriptorsLoaded_def stackDescriptorsLoaded_def globalElementsLoaded_def
        widgetElementsLoaded_def stackInstancesLoaded_def storeWidgetInstances_Nil
        split: sum.splits option.splits if_splits)

lemma settle_all_widgetInstances:
  "widgetInstances c = Some m \<Longrightarrow>
   widgetInstances (fst (settle_all srv fs (c, r))) =
     Some (fold (\<lambda>f. storeWidgetInstances (stored srv f)) fs m)"
proof (induction fs arbitrary: c r m)
  case Nil
  then show ?case by simp
next
  case (Cons f fs)
  show ?case
  proof (cases "settle srv f c")
    case (Inl err)
    with settle_widgetInstances [OF Cons.prems, of srv f] have "stored srv f = []" by simp
    with Inl Cons.IH [OF Cons.prems] show ?thesis by (simp add: storeWidgetInstances_Nil)
  next
    case (Inr c')
    with settle_widgetInstances [OF Cons.prems, of srv f]
    have "widgetInstances c' = Some (storeWidgetInstances (stored srv f) m)" by simp
    from Cons.IH [OF this] Inr show ?thesis by simp
  qed
qed

lemma fold_none: "(\<forall>x \<in> set xs. \<forall>m. g x m = m) \<Longrightarrow> fold g xs m = m"
  by (induction xs arbitrary: m) simp_all

lemma fold_single:
  "distinct xs \<Longrightarrow> b \<in> set xs \<Longrightarrow> (\<forall>x \<in> set xs. x \<noteq> b \<longrightarrow> (\<forall>m. g x m = m)) \<Longrightarrow>
   fold g xs m = g b m"
proof (induction xs arbitrary: m)
  case Nil
  then show ?case by simp
next
  case (Cons x xs)
  show ?case
  proof (cases "x = b")
    case True
    with Cons.prems have "\<forall>y \<in> set xs. \<forall>m. g y m = m" by auto
    then have "fold g xs (g b m) = g b m" by (rule fold_none)
    with True show ?thesis by simp
  next
    case False
    with Cons show ?thesis by simp
  qed
qed

lemma fold_two:
  "distinct xs \<Longrightarrow> a \<in> set xs \<Longrightarrow> b \<in> set xs \<Longrightarrow> a \<noteq> b \<Longrightarrow>
   (\<forall>x \<in> set xs. x \<noteq> a \<and> x \<noteq> b \<longrightarrow> (\<forall>m. g x m = m)) \<Longrightarrow>
   fold g xs m =
     (if b \<in> set (dropWhile (\<lambda>x. x \<noteq> a) xs) then g b (g a m) else g a (g b m))"
proof (induction xs arbitrary: m)
  case Nil
  then show ?case by simp
next
  case (Cons x xs)
  show ?case
  proof (cases "x = a")
    case True
    with Cons.prems have "fold g xs (g a m) = g b (g a m)" by (intro fold_single) auto
    with True Cons.prems show ?thesis by simp
  next
    case xa: False
    show ?thesis
    proof (cases "x = b")
      case True
      with Cons.prems have "fold g xs (g b m) = g a (g b m)" by (intro fold_single) auto
      moreover from True Cons.prems have "b \<notin> set (dropWhile (\<lambda>x. x \<noteq> a) xs)"
        using set_dropWhileD by fastforce
      ultimately show ?thesis using True xa by simp
    next
      case False
      with xa Cons.prems have "g x m = m" by simp
      moreover from False xa Cons.prems
      have "fold g xs m =
          (if b \<in> set (dropWhile (\<lambda>x. x \<noteq> a) xs) then g b (g a m) else g a (g b m))"
        by (intro Cons.IH) auto
      ultimately show ?thesis using xa by simp
    qed
  qed
qed

lemma stored_instance_lookup:
  "storeWidgetInstances items m (makeWidgetInstanceKey (JStr n) (JNum v)) =
     (case find (\<lambda>i. wi_displayName i = n \<and> wi_version i = v) (rev (populated items)) of
        Some i \<Rightarrow> Some i
      | None \<Rightarrow> m (makeWidgetInstanceKey (JStr n) (JNum v)))"
  by (simp add: key_inj storeWidgetInstances_populated fold_upd_lookup)

lemma stored_other:
  "f \<noteq> WidgetInstances100 \<Longrightarrow> f \<noteq> WidgetInstances101 \<Longrightarrow> stored srv f = []"
  by (cases f) (simp_all add: stored_def)

lemma widgetInstances_in_completion_order:
  assumes "distinct completion" and "set completion = set (issued srv)"
    and "getAllWidgetInstances100 srv = Inr (Some platform)"
    and "getAllWidgetInstances101 srv = Inr (Some user)"
  shows "widgetInstances (fst (initializeMetadata srv completion c0)) =
     Some (if settles_before WidgetInstances100 WidgetInstances101 completion
           then storeWidgetInstances user (storeWidgetInstances platform Map.empty)
           else storeWidgetInstances platform (storeWidgetInstances user Map.empty))"
proof -
  let ?g = "\<lambda>f. storeWidgetInstances (stored srv f)"
  have both: "WidgetInstances100 \<in> set completion" "WidgetInstances101 \<in> set completion"
    using assms(2) by (simp_all add: issued_def)
  have others: "\<forall>f \<in> set completion. f \<noteq> WidgetInstances100 \<and> f \<noteq> WidgetInstances101 \<longrightarrow>
      (\<forall>m. ?g f m = m)"
    by (simp add: stored_other storeWidgetInstances_Nil)
  have "widgetInstances (fst (initializeMetadata srv completion c0)) =
      Some (fold ?g completion Map.empty)"
    unfolding initializeMetadata_def
    by (rule settle_all_widgetInstances) (simp add: begin_loads_def)
  also have "fold ?g completion Map.empty =
      (if WidgetInstances101 \<in> set (dropWhile (\<lambda>f. f \<noteq> WidgetInstances100) completion)
       then ?g WidgetInstances101 (?g WidgetInstances100 Map.empty)
       else ?g WidgetInstances100 (?g WidgetInstances101 Map.empty))"
    by (rule fold_two [OF assms(1) both _ others]) simp
  finally show ?thesis
    using assms(3,4) by (simp add: settles_before_def stored_def)
qed

text \<open>
  Claim C3, amended. For fixed results of the two partition fetches, the
  \<open>widgetInstances\<close> cache after initialisation is the result of storing the partitions in
  the order in which their fetches settle: the platform-supplied instances first and the
  user-created ones second when the fetch of source 100 settles first, the other way round
  otherwise. So under a key present in both partitions the record of the partition that
  settled later is the cached one; the user-created record wins when the platform-supplied
  fetch settles first.
\<close>

theorem partitions_stored_in_completion_order:
  assumes "distinct completion" and "set completion = set (issued srv)"
    and "getAllWidgetInstances100 srv = Inr (Some platform)"
    and "getAllWidgetInstances101 srv = Inr (Some user)"
  shows "widgetInstances (fst (initializeMetadata srv completion c0)) =
       Some (if settles_before WidgetInstances100 WidgetInstances101 completion
             then storeWidgetInstances user (storeWidgetInstances platform Map.empty)
             else storeWidgetInstances platform (storeWidgetInstances user Map.empty)) \<and>
     map_option (\<lambda>m. m (makeWidgetInstanceKey (JStr n) (JNum v)))
         (widgetInstances (fst (initializeMetadata srv completion c0))) =
       Some (case find (\<lambda>i. wi_displayName i = n \<and> wi_version i = v)
                    (rev (populated
                       (if settles_before WidgetInstances100 WidgetInstances101 completion
                        then user else platform))) of
               Some i \<Rightarrow> Some i
             | None \<Rightarrow>
                 find (\<lambda>i. wi_displayName i = n \<and> wi_version i = v)
                   (rev (populated
                      (if settles_before WidgetInstances100 WidgetInstances101 completion
                       then platform else user))))"
  by (simp add: widgetInstances_in_completion_order [OF assms] stored_instance_lookup
      split: option.splits)

lemma twice_server_partitions:
  "getAllWidgetInstances100 twice_server =
     Inr (Some [\<lparr>wg_desc = cart_desc, wg_instances = [cart_instance ''P1'']\<rparr>])"
  "getAllWidgetInstances101 twice_server =
     Inr (Some [\<lparr>wg_desc = cart_desc, wg_instances = [cart_instance ''U1'']\<rparr>])"
  by (simp_all add: twice_server_def)

lemma twice_server_orders:
  "distinct (issued twice_server)" "distinct user_first"
  "set user_first = set (issued twice_server)"
  "settles_before WidgetInstances100 WidgetInstances101 (issued twice_server)"
  "\<not> settles_before WidgetInstances100 WidgetInstances101 user_first"
  by (auto simp: issued_def user_first_def twice_server_def theme_server_def settles_before_def)

theorem partitions_stored_in_completion_order_witness:
  "map_option (\<lambda>m. m (makeWidgetInstanceKey (JStr ''Cart Summary Widget'') (JNum 2)))
       (widgetInstances (fst (initializeMetadata twice_server (issued twice_server) empty_cache))) =
     Some (Some (cart_instance ''U1''))"
  using partitions_stored_in_completion_order
    [OF twice_server_orders(1) refl twice_server_partitions,
     of empty_cache "''Cart Summary Widget''" 2, THEN conjunct2]
  by (simp add: twice_server_orders populated_def cart_instance_def)

text \<open>
  The claim as stated fails: when the fetch of the user-created partition settles first,
  the platform-supplied record is the cached one, and the cache differs from the one
  obtained in the other completion order.
\<close>

theorem completion_order_counterexample:
  "map_option (\<lambda>m. m (makeWidgetInstanceKey (JStr ''Cart Summary Widget'') (JNum 2)))
       (widgetInstances (fst (initializeMetadata twice_server user_first empty_cache))) =
     Some (Some (cart_instance ''P1'')) \<and>
   map_option (\<lambda>m. m (makeWidgetInstanceKey (JStr ''Cart Summary Widget'') (JNum 2)))
       (widgetInstances (fst (initializeMetadata twice_server (issued twice_server) empty_cache))) =
     Some (Some (cart_instance ''U1'')) \<and>
   cart_instance ''P1'' \<noteq> cart_instance ''U1''"
  by (simp add: widgetInstances_in_completion_order
        [OF twice_server_orders(2,3) twice_server_partitions]
      widgetInstances_in_completion_order
        [OF twice_server_orders(1) refl twice_server_partitions]
      twice_server_orders stored_instance_lookup populated_def cart_instance_def)

section \<open>The cache after initialisation\<close>

lemma settle_all_field:
  assumes step: "\<And>f c c'. settle srv f c = Inr c' \<Longrightarrow> fld c' = (if f = F then g (fld c) else fld c)"
    and fail: "\<And>c err. settle srv F c = Inl err \<Longrightarrow> g (fld c) = fld c"
    and "distinct fs"
  shows "fld (fst (settle_all srv fs (c, r))) = (if F \<in> set fs then g (fld c) else fld c)"
  using assms(3)
proof (induction fs arbitrary: c r)
  case Nil
  show ?case by simp
next
  case (Cons f fs)
  then have notin: "f \<notin> set fs" and d: "distinct fs" by simp_all
  show ?case
  proof (cases "settle srv f c")
    case (Inl err)
    show ?thesis
    proof (cases "f = F")
      case True
      with Inl fail [of c err] notin Cons.IH [OF d] show ?thesis by simp
    next
      case False
      with Inl Cons.IH [OF d] show ?thesis by simp
    qed
  next
    case (Inr c')
    show ?thesis
    proof (cases "f = F")
      case True
      with Inr step [OF Inr] notin Cons.IH [OF d, of c' r] show ?thesis by simp
    next
      case False
      with Inr step [OF Inr] Cons.IH [OF d, of c' r] show ?thesis by simp
    qed
  qed
qed

lemma map_option_fold_Nil: "map_option (fold h []) x = x"
  by (cases x) simp_all

lemma set_all_eq:
  "set_all key xs field =
     (if field = None \<and> xs \<noteq> [] then Inl TypeError
      else Inr (map_option (fold (\<lambda>x m. m(key x \<mapsto> x)) xs) field))"
  by (cases field) (simp_all add: set_all_def)

lemma other_fields_kept:
  "settle srv f c = Inr c' \<Longrightarrow>
   (f \<noteq> Themes \<longrightarrow> themes c' = themes c) \<and>
   (f \<noteq> GlobalElements \<longrightarrow> globalElements c' = globalElements c) \<and>
   (f \<noteq> WidgetElements \<longrightarrow> widgetElements c' = widgetElements c) \<and>
   (f \<noteq> StackInstances \<longrightarrow> stackInstances c' = stackInstances c) \<and>
   (f \<noteq> WidgetDescriptors \<longrightarrow> widgetDescriptors c' = widgetDescriptors c) \<and>
   (f \<noteq> StackDescriptors \<longrightarrow> stackDescriptors c' = stackDescriptors c)"
  by (cases f)
     (auto simp: themesLoaded_def widgetInstancesLoaded_def
        widgetDescriptorsLoaded_def stackDescriptorsLoaded_def globalElementsLoaded_def
        widgetElementsLoaded_def stackInstancesLoaded_def
        split: sum.splits option.splits if_splits)

lemma themes_after_settle_all:
  assumes "distinct fs"
  shows "themes (fst (settle_all srv fs (c, r))) =
     (if Themes \<in> set fs
      then map_option (fold (\<lambda>theme m. m(th_name theme \<mapsto> theme)) (listing (getThemes srv))) (themes c)
      else themes c)"
proof (rule settle_all_field [OF _ _ assms])
  fix f c c'
  assume "settle srv f c = Inr c'"
  then show "themes c' =
      (if f = Themes
       then map_option (fold (\<lambda>theme m. m(th_name theme \<mapsto> theme)) (listing (getThemes srv))) (themes c)
       else themes c)"
    using other_fields_kept [of srv f c c']
    by (auto simp: listing_def themesLoaded_def set_all_eq split: sum.splits if_splits)
next
  fix c err
  assume "settle srv Themes c = Inl err"
  then show "map_option (fold (\<lambda>theme m. m(th_name theme \<mapsto> theme)) (listing (getThemes srv)))
      (themes c) = themes c"
    by (auto simp: listing_def themesLoaded_def set_all_eq option.map_id split: sum.splits if_splits)
qed

lemma stackInstances_after_settle_all:
  assumes "distinct fs"
  shows "stackInstances (fst (settle_all srv fs (c, r))) =
     (if StackInstances \<in> set fs
      then map_option (fold (\<lambda>i m. m(stackInstanceKey i \<mapsto> i))
             (concat (map sg_instances (listing (getAllStackInstances srv))))) (stackInstances c)
      else stackInstances c)"
proof (rule settle_all_field [OF _ _ assms])
  fix f c c'
  assume "settle srv f c = Inr c'"
  then show "stackInstances c' =
      (if f = StackInstances
       then map_option (fold (\<lambda>i m. m(stackInstanceKey i \<mapsto> i))
              (concat (map sg_instances (listing (getAllStackInstances srv))))) (stackInstances c)
       else stackInstances c)"
    using other_fields_kept [of srv f c c']
    by (auto simp: listing_def stackInstancesLoaded_def concat_instances set_all_eq
        split: sum.splits if_splits)
next
  fix c err
  assume "settle srv StackInstances c = Inl err"
  then show "map_option (fold (\<lambda>i m. m(stackInstanceKey i \<mapsto> i))
      (concat (map sg_instances (listing (getAllStackInstances srv))))) (stackInstances c) =
      stackInstances c"
    by (auto simp: listing_def stackInstancesLoaded_def concat_instances set_all_eq option.map_id
        split: sum.splits if_splits)
qed

lemma globalElements_after_settle_all:
  assumes "distinct fs"
  shows "globalElements (fst (settle_all srv fs (c, r))) =
     (if GlobalElements \<in> set fs
      then map_option (fold (\<lambda>element m. m(el_tag element \<mapsto> element))
             (if serverSupportsGetElements srv then listing (getElementsGlobal srv) else []))
             (globalElements c)
      else globalElements c)"
proof (rule settle_all_field [OF _ _ assms])
  fix f c c'
  assume "settle srv f c = Inr c'"
  then show "globalElements c' =
      (if f = GlobalElements
       then map_option (fold (\<lambda>element m. m(el_tag element \<mapsto> element))
              (if serverSupportsGetElements srv then listing (getElementsGlobal srv) else []))
              (globalElements c)
       else globalElements c)"
    using other_fields_kept [of srv f c c']
    by (auto simp: listing_def globalElementsLoaded_def set_all_eq option.map_id
        split: sum.splits if_splits)
next
  fix c err
  assume "settle srv GlobalElements c = Inl err"
  then show "map_option (fold (\<lambda>element m. m(el_tag element \<mapsto> element))
      (if serverSupportsGetElements srv then listing (getElementsGlobal srv) else []))
      (globalElements c) = globalElements c"
    by (auto simp: listing_def globalElementsLoaded_def set_all_eq option.map_id
        split: sum.splits if_splits)
qed

lemma widgetElements_after_settle_all:
  assumes "distinct fs"
  shows "widgetElements (fst (settle_all srv fs (c, r))) =
     (if WidgetElements \<in> set fs
      then map_option (fold (\<lambda>element m. m(el_tag element \<mapsto> element))
             (if serverSupportsGetElements srv then listing (getElementsOfWidgets srv) else []))
             (widgetElements c)
      else widgetElements c)"
proof (rule settle_all_field [OF _ _ assms])
  fix f c c'
  assume "settle srv f c = Inr c'"
  then show "widgetElements c' =
      (if f = WidgetElements
       then map_option (fold (\<lambda>element m. m(el_tag element \<mapsto> element))
              (if serverSupportsGetElements srv then listing (getElementsOfWidgets srv) else []))
              (widgetElements c)
       else widgetElements c)"
    using other_fields_kept [of srv f c c']
    by (auto simp: listing_def widgetElementsLoaded_def set_all_eq option.map_id
        split: sum.splits if_splits)
next
  fix c err
  assume "settle srv WidgetElements c = Inl err"
  then show "map_option (fold (\<lambda>element m. m(el_tag element \<mapsto> element))
      (if serverSupportsGetElements srv then listing (getElementsOfWidgets srv) else []))
      (widgetElements c) = widgetElements c"
    by (auto simp: listing_def widgetElementsLoaded_def set_all_eq option.map_id
        split: sum.splits if_splits)
qed

lemma widgetDescriptors_after_settle_all:
  assumes "distinct fs"
  shows "widgetDescriptors (fst (settle_all srv fs (c, r))) =
     (if WidgetDescriptors \<in> set fs
      then (case getAllWidgetDescriptors srv of
              Inl err \<Rightarrow> widgetDescriptors c | Inr items \<Rightarrow> Some items)
      else widgetDescriptors c)"
proof (rule settle_all_field
    [OF _ _ assms, where g = "\<lambda>d. case getAllWidgetDescriptors srv of
        Inl err \<Rightarrow> d | Inr items \<Rightarrow> Some items"])
  fix f c c'
  assume "settle srv f c = Inr c'"
  then show "widgetDescriptors c' =
      (if f = WidgetDescriptors
       then (case getAllWidgetDescriptors srv of
               Inl err \<Rightarrow> widgetDescriptors c | Inr items \<Rightarrow> Some items)
       else widgetDescriptors c)"
    using other_fields_kept [of srv f c c']
    by (auto simp: widgetDescriptorsLoaded_def split: sum.splits)
next
  fix c err
  assume "settle srv WidgetDescriptors c = Inl err"
  then show "(case getAllWidgetDescriptors srv of
      Inl err \<Rightarrow> widgetDescriptors c | Inr items \<Rightarrow> Some items) = widgetDescriptors c"
    by (auto simp: widgetDescriptorsLoaded_def split: sum.splits)
qed

lemma stackDescriptors_after_settle_all:
  assumes "distinct fs"
  shows "stackDescriptors (fst (settle_all srv fs (c, r))) =
     (if StackDescriptors \<in> set fs
      then (case getAllStackDescriptors srv of
              Inl err \<Rightarrow> stackDescriptors c | Inr items \<Rightarrow> Some items)
      else stackDescriptors c)"
proof (rule settle_all_field
    [OF _ _ assms, where g = "\<lambda>d. case getAllStackDescriptors srv of
        Inl err \<Rightarrow> d | Inr items \<Rightarrow> Some items"])
  fix f c c'
  assume "settle srv f c = Inr c'"
  then show "stackDescriptors c' =
      (if f = StackDescriptors
       then (case getAllStackDescriptors srv of
               Inl err \<Rightarrow> stackDescriptors c | Inr items \<Rightarrow> Some items)
       else stackDescriptors c)"
    using other_fields_kept [of srv f c c']
    by (auto simp: stackDescriptorsLoaded_def split: sum.splits)
next
  fix c err
  assume "settle srv StackDescriptors c = Inl err"
  then show "(case getAllStackDescriptors srv of
      Inl err \<Rightarrow> stackDescriptors c | Inr items \<Rightarrow> Some items) = stackDescriptors c"
    by (auto simp: stackDescriptorsLoaded_def split: sum.splits)
qed

lemma widgetInstances_after_initializeMetadata:
  assumes "distinct completion" and "set completion = set (issued srv)"
  shows "widgetInstances (fst (initializeMetadata srv completion c0)) =
     Some (if settles_before WidgetInstances100 WidgetInstances101 completion
           then storeWidgetInstances (stored srv WidgetInstances101)
                  (storeWidgetInstances (stored srv WidgetInstances100) Map.empty)
           else storeWidgetInstances (stored srv WidgetInstances100)
                  (storeWidgetInstances (stored srv WidgetInstances101) Map.empty))"
proof -
  let ?g = "\<lambda>f. storeWidgetInstances (stored srv f)"
  have both: "WidgetInstances100 \<in> set completion" "WidgetInstances101 \<in> set completion"
    using assms(2) by (simp_all add: issued_def)
  have others: "\<forall>f \<in> set completion. f \<noteq> WidgetInstances100 \<and> f \<noteq> WidgetInstances101 \<longrightarrow>
      (\<forall>m. ?g f m = m)"
    by (simp add: stored_other storeWidgetInstances_Nil)
  have "widgetInstances (fst (initializeMetadata srv completion c0)) =
      Some (fold ?g completion Map.empty)"
    unfolding initializeMetadata_def
    by (rule settle_all_widgetInstances) (simp add: begin_loads_def)
  also have "fold ?g completion Map.empty =
      (if WidgetInstances101 \<in> set (dropWhile (\<lambda>f. f \<noteq> WidgetInstances100) completion)
       then ?g WidgetInstances101 (?g WidgetInstances100 Map.empty)
       else ?g WidgetInstances100 (?g WidgetInstances101 Map.empty))"
    by (rule fold_two [OF assms(1) both _ others]) simp
  finally show ?thesis by (simp add: settles_before_def)
qed

lemma cache_after_initializeMetadata:
  assumes "distinct completion" and "set completion = set (issued srv)"
  shows "fst (initializeMetadata srv completion c0) = filled srv completion c0"
proof (rule cache.equality)
  have mem: "Themes \<in> set completion" "StackInstances \<in> set completion"
    "WidgetDescriptors \<in> set completion" "StackDescriptors \<in> set completion"
    "GlobalElements \<in> set completion \<longleftrightarrow> serverSupportsGetElements srv"
    "WidgetElements \<in> set completion \<longleftrightarrow> serverSupportsGetElements srv"
    using assms(2) by (simp_all add: issued_def)
  show "themes (fst (initializeMetadata srv completion c0)) = themes (filled srv completion c0)"
    using mem by (simp add: initializeMetadata_def themes_after_settle_all [OF assms(1)]
        begin_loads_def filled_def)
  show "stackInstances (fst (initializeMetadata srv completion c0)) =
      stackInstances (filled srv completion c0)"
    using mem by (simp add: initializeMetadata_def stackInstances_after_settle_all [OF assms(1)]
        begin_loads_def filled_def)
  show "globalElements (fst (initializeMetadata srv completion c0)) =
      globalElements (filled srv completion c0)"
    using mem by (simp add: initializeMetadata_def globalElements_after_settle_all [OF assms(1)]
        begin_loads_def filled_def)
  show "widgetElements (fst (initializeMetadata srv completion c0)) =
      widgetElements (filled srv completion c0)"
    using mem by (simp add: initializeMetadata_def widgetElements_after_settle_all [OF assms(1)]
        begin_loads_def filled_def)
  show "widgetDescriptors (fst (initializeMetadata srv completion c0)) =
      widgetDescriptors (filled srv completion c0)"
    using mem by (simp add: initializeMetadata_def widgetDescriptors_after_settle_all [OF assms(1)]
        begin_loads_def filled_def split: sum.splits)
  show "stackDescriptors (fst (initializeMetadata srv completion c0)) =
      stackDescriptors (filled srv completion c0)"
    using mem by (simp add: initializeMetadata_def stackDescriptors_after_settle_all [OF assms(1)]
        begin_loads_def filled_def split: sum.splits)
  show "widgetInstances (fst (initializeMetadata srv completion c0)) =
      widgetInstances (filled srv completion c0)"
    by (simp add: widgetInstances_after_initializeMetadata [OF assms] filled_def)
  show "cache.more (fst (initializeMetadata srv completion c0)) =
      cache.more (filled srv completion c0)"
    by simp
qed

text \<open>
  Claim C7, amended. Once every issued fetch has settled, the promise of
  \<open>initializeMetadata\<close> is resolved exactly when none of the fetches behind the seven
  loaders was rejected (the element loaders issue no fetch on a server without
  \<open>getElements\<close>); a rejection of the whole is the rejection of one of these fetches,
  each of which is issued once and never again. Whatever the outcome, the module's cache
  is then the cache \<open>filled\<close>: every collection whose fetch was resolved holds the listing
  of that fetch, so on success the cache holds all the listings; after a rejection the
  collections of the resolved fetches are filled all the same, and nothing in the cache
  tells a partly filled cache from a complete one.
\<close>

theorem initializeMetadata_outcome_and_cache:
  assumes "distinct completion" and "set completion = set (issued srv)"
  shows "(snd (initializeMetadata srv completion c0) = None \<longleftrightarrow>
            (\<forall>f \<in> set (issued srv). rejection srv f = None)) \<and>
         (\<forall>err. snd (initializeMetadata srv completion c0) = Some err \<longrightarrow>
            (\<exists>f \<in> set (issued srv). rejection srv f = Some err)) \<and>
         fst (initializeMetadata srv completion c0) = filled srv completion c0 \<and>
         (snd (initializeMetadata srv completion c0) = None \<longrightarrow>
            widgetDescriptors (fst (initializeMetadata srv completion c0)) =
              Some (listing (getAllWidgetDescriptors srv)) \<and>
            stackDescriptors (fst (initializeMetadata srv completion c0)) =
              Some (listing (getAllStackDescriptors srv)))"
proof -
  have sub: "set completion \<subseteq> set (issued srv)" using assms(2) by simp
  have resolved: "snd (initializeMetadata srv completion c0) = None \<longleftrightarrow>
      (\<forall>f \<in> set (issued srv). rejection srv f = None)"
    using settle_all_resolved [OF maps_created_begin sub, of c0 None] assms(2)
    by (simp add: initializeMetadata_def)
  have rejected: "\<exists>f \<in> set (issued srv). rejection srv f = Some err"
    if "snd (initializeMetadata srv completion c0) = Some err" for err
    using settle_all_rejection [OF maps_created_begin sub, of c0 None err] that assms(2)
    by (simp add: initializeMetadata_def)
  note cache = cache_after_initializeMetadata [OF assms, of c0]
  have listed: "widgetDescriptors (fst (initializeMetadata srv completion c0)) =
        Some (listing (getAllWidgetDescriptors srv)) \<and>
      stackDescriptors (fst (initializeMetadata srv completion c0)) =
        Some (listing (getAllStackDescriptors srv))"
    if "snd (initializeMetadata srv completion c0) = None"
  proof -
    have "WidgetDescriptors \<in> set (issued srv)" "StackDescriptors \<in> set (issued srv)"
      by (simp_all add: issued_def)
    with that resolved
    have "rejection srv WidgetDescriptors = None" "rejection srv StackDescriptors = None"
      by blast+
    then show ?thesis
      by (simp add: cache filled_def listing_def split: sum.splits)
  qed
  from resolved rejected cache listed show ?thesis by blast
qed

lemma partial_server_orders:
  "distinct themes_first" "set themes_first = set (issued partial_server)"
  "distinct (issued theme_server)"
  by (auto simp: themes_first_def issued_def partial_server_def theme_server_def)

lemma partial_server_listings:
  "getAllWidgetDescriptors partial_server = Inr [cart_desc]"
  "getThemes partial_server = Inl (FetchError ''503'')"
  "getAllWidgetDescriptors theme_server = Inr []"
  by (simp_all add: partial_server_def theme_server_def)

theorem initializeMetadata_outcome_and_cache_witness:
  "snd (initializeMetadata theme_server (issued theme_server) empty_cache) = None \<and>
   widgetDescriptors (fst (initializeMetadata theme_server (issued theme_server) empty_cache)) =
     Some [] \<and>
   snd (initializeMetadata partial_server themes_first empty_cache) \<noteq> None \<and>
   widgetDescriptors (fst (initializeMetadata partial_server themes_first empty_cache)) =
     Some [cart_desc] \<and>
   themes (fst (initializeMetadata partial_server themes_first empty_cache)) = Some Map.empty"
proof -
  have ok: "\<forall>f \<in> set (issued theme_server). rejection theme_server f = None"
    by (simp add: issued_def theme_server_def)
  have bad: "Themes \<in> set (issued partial_server)"
    "rejection partial_server Themes = Some (FetchError ''503'')"
    by (simp_all add: issued_def partial_server_def)
  from initializeMetadata_outcome_and_cache
    [OF partial_server_orders(3) refl, of empty_cache] ok
  have "snd (initializeMetadata theme_server (issued theme_server) empty_cache) = None"
    "widgetDescriptors (fst (initializeMetadata theme_server (issued theme_server) empty_cache)) =
       Some []"
    by (simp_all add: listing_def partial_server_listings filled_def)
  moreover
  note p = initializeMetadata_outcome_and_cache [OF partial_server_orders(1,2), of empty_cache]
  from p bad
  have "snd (initializeMetadata partial_server themes_first empty_cache) \<noteq> None"
    by force
  moreover from p
  have "fst (initializeMetadata partial_server themes_first empty_cache) =
      filled partial_server themes_first empty_cache"
    by blast
  then have "widgetDescriptors (fst (initializeMetadata partial_server themes_first empty_cache)) =
      Some [cart_desc]"
    "themes (fst (initializeMetadata partial_server themes_first empty_cache)) = Some Map.empty"
    by (simp_all add: filled_def partial_server_listings listing_def)
  ultimately show ?thesis by simp
qed

text \<open>
  The claim as stated fails in its clause on the partial cache: after an initialisation
  that was rejected (the theme listing failed, before anything else settled), the widget
  matcher reads the partly filled cache and returns a match.
\<close>

theorem partial_cache_matched_counterexample:
  "snd (initializeMetadata partial_server themes_first empty_cache) =
     Some (FetchError ''503'') \<and>
   getMatchingWidget cart_env
       (fst (initializeMetadata partial_server themes_first empty_cache)) cart_path =
     ([Info ''matchingWidgetFound'' (PathArg cart_path)],
      Inr (Some [(''repositoryId'', JStr ''W1''), (''widgetType'', JStr ''cart''),
                 (''elementized'', JBool False)]))"
proof -
  have "snd (initializeMetadata partial_server themes_first empty_cache) =
      Some (FetchError ''503'')"
    by (simp add: initializeMetadata_def themes_first_def partial_server_def theme_server_def
        widgetInstancesLoaded_def widgetDescriptorsLoaded_def stackDescriptorsLoaded_def
        stackInstancesLoaded_def set_all_def begin_loads_def)
  moreover
  have "widgetDescriptors (fst (initializeMetadata partial_server themes_first empty_cache)) =
      Some [cart_desc]"
    by (simp add: cache_after_initializeMetadata [OF partial_server_orders(1,2)] filled_def
        partial_server_listings)
  then have "getMatchingWidget cart_env
       (fst (initializeMetadata partial_server themes_first empty_cache)) cart_path =
     ([Info ''matchingWidgetFound'' (PathArg cart_path)],
      Inr (Some [(''repositoryId'', JStr ''W1''), (''widgetType'', JStr ''cart''),
                 (''elementized'', JBool False)]))"
    by (simp add: getMatchingWidget_def cart_metadata sameWidget_Some js_find_total
        get_prop_Cons get_prop_Nil cart_desc_def)
  ultimately show ?thesis by simp
qed

end
